theory Spec2Isabelle
  imports Main Complex_Main "HOL-Library.Word"
begin

unbundle bit_operations_syntax

section \<open>Data of birq.c\<close>

text \<open>
  The theory embeds \<^verbatim>\<open>birq.c\<close>: option handling, config file parsing and the
  daemon's \<^verbatim>\<open>main\<close> with its tick loop. The CPU mask, the INI reader, the
  scanners and the balancer are other translation units of the program; what
  \<^verbatim>\<open>birq.c\<close> needs of them enters as parameters.
\<close>

subsection \<open>Values\<close>

text \<open>The enum \<^verbatim>\<open>birq_choose_strategy_e\<close>.\<close>

datatype birq_choose_strategy_e = BIRQ_CHOOSE_MAX | BIRQ_CHOOSE_MIN | BIRQ_CHOOSE_RND

text \<open>
  A C \<^verbatim>\<open>float\<close> as the value it denotes: a finite real number, an infinity or a
  NaN. Only the comparison with a constant is needed.
\<close>

datatype cfloat = Finite real | PosInf | NegInf | NaN

text \<open>The C comparison \<^verbatim>\<open>f > c\<close> for a finite constant \<^verbatim>\<open>c\<close>; false on a NaN.\<close>

fun cfloat_gt :: "cfloat \<Rightarrow> real \<Rightarrow> bool" where
  "cfloat_gt (Finite x) c = (x > c)"
| "cfloat_gt PosInf c = True"
| "cfloat_gt NegInf c = False"
| "cfloat_gt NaN c = False"

text \<open>
  \<^verbatim>\<open>cpumask_t\<close> is a bit set of \<^verbatim>\<open>NR_CPUS\<close> bits: a word whose length is
  the build-time constant.
\<close>

type_synonym 'n cpumask_t = "'n word"

text \<open>Modelled from the spec: \<^verbatim>\<open>cpumask.h\<close> is absent; the spec's CpuMask is a
  fixed-capacity bitset, and \<^verbatim>\<open>clear\<close> empties it.\<close>

definition cpus_clear :: "'n::len cpumask_t" where
  "cpus_clear = 0"

text \<open>Modelled from the spec: \<^verbatim>\<open>cpumask.h\<close> is absent; \<^verbatim>\<open>set_all\<close> of the spec's
  CpuMask sets every bit of the fixed capacity.\<close>

definition cpus_setall :: "'n::len cpumask_t" where
  "cpus_setall = - 1"

text \<open>Modelled from the spec: \<^verbatim>\<open>cpumask.h\<close> is absent; the bitwise complement of the
  spec's CpuMask.\<close>

definition cpus_complement :: "'n::len cpumask_t \<Rightarrow> 'n cpumask_t" where
  "cpus_complement src = NOT src"

text \<open>Modelled from the spec: \<^verbatim>\<open>cpumask.h\<close> is absent; the bitwise union of the
  spec's CpuMask.\<close>

definition cpus_or :: "'n::len cpumask_t \<Rightarrow> 'n cpumask_t \<Rightarrow> 'n cpumask_t" where
  "cpus_or src1 src2 = src1 OR src2"

text \<open>\<^verbatim>\<open>struct options\<close>. The flags keep their C type \<^verbatim>\<open>int\<close>; a
  \<^verbatim>\<open>char *\<close> that may be \<^verbatim>\<open>NULL\<close> is an option. The type parameter is
  \<^verbatim>\<open>cpumask_t\<close>, instantiated with \<^typ>\<open>'n cpumask_t\<close> throughout.\<close>

record 'm options =
  pidfile :: string
  cfgfile :: string
  cfgfile_userdefined :: int
  pxm :: "string option"
  debug :: int
  log_facility :: int
  threshold :: cfloat
  load_limit :: cfloat
  verbose :: int
  ht :: int
  non_local_cpus :: int
  long_interval :: "32 word"
  short_interval :: "32 word"
  strategy :: birq_choose_strategy_e
  exclude_cpus :: 'm


subsection \<open>The C library\<close>

text \<open>\<^verbatim>\<open>isspace\<close> and \<^verbatim>\<open>isdigit\<close> in the C locale.\<close>

definition isspace :: "char \<Rightarrow> bool" where
  "isspace c = ((of_char c :: nat) = 32 \<or> (9 \<le> (of_char c :: nat) \<and> (of_char c :: nat) \<le> 13))"

definition isdigit :: "char \<Rightarrow> bool" where
  "isdigit c = (48 \<le> (of_char c :: nat) \<and> (of_char c :: nat) \<le> 57)"

fun digits_value :: "nat \<Rightarrow> string \<Rightarrow> nat" where
  "digits_value acc [] = acc"
| "digits_value acc (c # cs) = digits_value (acc * 10 + (of_char c - 48)) cs"

text \<open>The length of an optional sign at the head of a string.\<close>

fun sign_len :: "string \<Rightarrow> nat" where
  "sign_len [] = 0"
| "sign_len (c # cs) = (if c = CHR ''+'' \<or> c = CHR ''-'' then 1 else 0)"

text \<open>
  \<^verbatim>\<open>strtoul(nptr, &endptr, 10)\<close> with a 64-bit \<^verbatim>\<open>unsigned long\<close> (Linux LP64):
  the value and the number of characters consumed, \<^verbatim>\<open>endptr - nptr\<close>. Leading
  white space and one sign are skipped; without a digit nothing is consumed and the
  value is 0; a value that does not fit is \<^verbatim>\<open>ULONG_MAX\<close>; a minus sign negates
  in unsigned arithmetic.
\<close>

definition strtoul :: "string \<Rightarrow> 64 word \<times> nat" where
  "strtoul nptr =
     (let ws = takeWhile isspace nptr;
          s1 = dropWhile isspace nptr;
          sg = sign_len s1;
          ds = takeWhile isdigit (drop sg s1);
          n = digits_value 0 ds
      in if ds = [] then (0, 0)
         else (if n \<ge> 2 ^ 64 then - 1
               else if take sg s1 = ''-'' then - of_nat n
               else of_nat n,
               length ws + sg + length ds))"

subsection \<open>What birq.c takes from the rest of the program\<close>

text \<open>The INI reader of \<^verbatim>\<open>lub/ini.h\<close>: a loaded file is a finite map from names
  to values, \<^verbatim>\<open>lub_ini_find\<close> looks a name up and yields \<^verbatim>\<open>NULL\<close> when it is absent.\<close>

type_synonym lub_ini_t = "string \<rightharpoonup> string"

definition lub_ini_find :: "lub_ini_t \<Rightarrow> string \<Rightarrow> string option" where
  "lub_ini_find ini name = ini name"

text \<open>
  The build-time constants of \<^verbatim>\<open>birq.h\<close> and \<^verbatim>\<open>config.h\<close>, and the functions
  of other units that option parsing calls:
  \<^item> \<^verbatim>\<open>strtof\<close>: the value and the number of characters consumed;
  \<^item> \<^verbatim>\<open>cpumask_parse_user(buf, len, dst)\<close>: the return code and the content of the
    output parameter \<^verbatim>\<open>dst\<close> after the call;
  \<^item> \<^verbatim>\<open>lub_log_facility\<close>: the facility, or \<^verbatim>\<open>None\<close> for its error return;
  \<^item> \<^verbatim>\<open>cpus_init\<close>: the content of a freshly initialised mask.
\<close>

record 'm lib =
  BIRQ_PIDFILE :: string
  BIRQ_CFGFILE :: string
  BIRQ_DEFAULT_THRESHOLD :: cfloat
  BIRQ_DEFAULT_LOAD_LIMIT :: cfloat
  BIRQ_LONG_INTERVAL :: "32 word"
  BIRQ_SHORT_INTERVAL :: "32 word"
  HAVE_GETOPT_H :: bool
  cpus_init :: 'm
  strtof :: "string \<Rightarrow> cfloat \<times> nat"
  cpumask_parse_user :: "string \<Rightarrow> int \<times> 'm"
  lub_log_facility :: "string \<Rightarrow> int option"

text \<open>\<^verbatim>\<open>LOG_DAEMON\<close> of \<^verbatim>\<open>syslog.h\<close>.\<close>

definition LOG_DAEMON :: int where
  "LOG_DAEMON = 24"

text \<open>The file system as far as config loading sees it: \<^verbatim>\<open>access(path, R_OK) == 0\<close>,
  and the outcome of \<^verbatim>\<open>lub_ini_parse_file\<close> (\<^verbatim>\<open>None\<close> for a non-zero return).\<close>

record world =
  access_R_OK :: "string \<Rightarrow> bool"
  lub_ini_parse_file :: "string \<Rightarrow> lub_ini_t option"

section \<open>Options\<close>

text \<open>Every function that writes through a pointer returns the new content next to
  its return code.\<close>

definition opts_default_config :: "'n::len cpumask_t lib \<Rightarrow> 'n cpumask_t options \<Rightarrow> 'n cpumask_t options" where
  "opts_default_config L opts =
     opts\<lparr> threshold := BIRQ_DEFAULT_THRESHOLD L,
           load_limit := BIRQ_DEFAULT_LOAD_LIMIT L,
           ht := 1,
           non_local_cpus := 0,
           long_interval := BIRQ_LONG_INTERVAL L,
           short_interval := BIRQ_SHORT_INTERVAL L,
           strategy := BIRQ_CHOOSE_RND,
           exclude_cpus := cpus_clear \<rparr>"

text \<open>
  \<^verbatim>\<open>opts_init\<close> allocates the structure with \<^verbatim>\<open>malloc\<close> and assigns the command
  line options only. The argument \<open>heap\<close> is the content of the fresh allocation,
  which the fields not assigned here keep.
\<close>

definition opts_init :: "'n::len cpumask_t lib \<Rightarrow> 'n cpumask_t options \<Rightarrow> 'n cpumask_t options" where
  "opts_init L heap =
     heap\<lparr> exclude_cpus := cpus_init L,
           debug := 0,
           pidfile := BIRQ_PIDFILE L,
           cfgfile := BIRQ_CFGFILE L,
           cfgfile_userdefined := 0,
           pxm := None,
           log_facility := LOG_DAEMON,
           verbose := 0 \<rparr>"

definition opt_parse_y_n :: "string \<Rightarrow> int \<Rightarrow> int \<times> int" where
  "opt_parse_y_n optarg flag =
     (if optarg = ''y'' then (0, 1)
      else if optarg = ''yes'' then (0, 1)
      else if optarg = ''n'' then (0, 0)
      else if optarg = ''no'' then (0, 0)
      else (- 1, flag))"

definition opt_parse_strategy :: "string \<Rightarrow> birq_choose_strategy_e \<Rightarrow> int \<times> birq_choose_strategy_e" where
  "opt_parse_strategy optarg strat =
     (if optarg = ''max'' then (0, BIRQ_CHOOSE_MAX)
      else if optarg = ''min'' then (0, BIRQ_CHOOSE_MIN)
      else if optarg = ''rnd'' then (0, BIRQ_CHOOSE_RND)
      else (- 1, strat))"

definition opt_parse_threshold :: "(string \<Rightarrow> cfloat \<times> nat) \<Rightarrow> string \<Rightarrow> cfloat \<Rightarrow> int \<times> cfloat" where
  "opt_parse_threshold strtof_fn optarg thr =
     (let (thresh, consumed) = strtof_fn optarg
      in if consumed = 0 then (- 1, thr)
         else if cfloat_gt thresh 100 then (- 1, thr)
         else (0, thresh))"

definition opt_parse_interval :: "string \<Rightarrow> 32 word \<Rightarrow> int \<times> 32 word" where
  "opt_parse_interval optarg interval =
     (let (val, consumed) = strtoul optarg
      in if consumed = 0 then (- 1, interval)
         else (0, ucast val))"


subsection \<open>The config file\<close>

text \<open>
  \<^verbatim>\<open>parse_config\<close> handles the keys one after the other and leaves through
  \<^verbatim>\<open>goto err\<close> at the first one that fails. Each key is a step from the options to
  a return code and the options as the step leaves them; \<open>and_then\<close> runs the next
  step only after return code 0.
\<close>

type_synonym 'm cfg_step = "'m options \<Rightarrow> int \<times> 'm options"

definition and_then :: "int \<times> 'm options \<Rightarrow> 'm cfg_step \<Rightarrow> int \<times> 'm options" where
  "and_then r f = (if fst r \<noteq> 0 then r else f (snd r))"

definition cfg_strategy :: "lub_ini_t \<Rightarrow> 'm cfg_step" where
  "cfg_strategy ini opts =
     (case lub_ini_find ini ''strategy'' of
        None \<Rightarrow> (0, opts)
      | Some tmp \<Rightarrow>
          (let (rc, v) = opt_parse_strategy tmp (strategy opts)
           in if rc < 0 then (- 1, opts\<lparr>strategy := v\<rparr>) else (0, opts\<lparr>strategy := v\<rparr>)))"

definition cfg_threshold :: "'m lib \<Rightarrow> lub_ini_t \<Rightarrow> 'm cfg_step" where
  "cfg_threshold L ini opts =
     (case lub_ini_find ini ''threshold'' of
        None \<Rightarrow> (0, opts)
      | Some tmp \<Rightarrow>
          (let (rc, v) = opt_parse_threshold (strtof L) tmp (threshold opts)
           in if rc \<noteq> 0 then (- 1, opts\<lparr>threshold := v\<rparr>) else (0, opts\<lparr>threshold := v\<rparr>)))"

definition cfg_load_limit :: "'m lib \<Rightarrow> lub_ini_t \<Rightarrow> 'm cfg_step" where
  "cfg_load_limit L ini opts =
     (case lub_ini_find ini ''load-limit'' of
        None \<Rightarrow> (0, opts)
      | Some tmp \<Rightarrow>
          (let (rc, v) = opt_parse_threshold (strtof L) tmp (load_limit opts)
           in if rc \<noteq> 0 then (- 1, opts\<lparr>load_limit := v\<rparr>) else (0, opts\<lparr>load_limit := v\<rparr>)))"

definition cfg_short_interval :: "lub_ini_t \<Rightarrow> 'm cfg_step" where
  "cfg_short_interval ini opts =
     (case lub_ini_find ini ''short-interval'' of
        None \<Rightarrow> (0, opts)
      | Some tmp \<Rightarrow>
          (let (rc, v) = opt_parse_interval tmp (short_interval opts)
           in if rc \<noteq> 0 then (- 1, opts\<lparr>short_interval := v\<rparr>) else (0, opts\<lparr>short_interval := v\<rparr>)))"

definition cfg_long_interval :: "lub_ini_t \<Rightarrow> 'm cfg_step" where
  "cfg_long_interval ini opts =
     (case lub_ini_find ini ''long-interval'' of
        None \<Rightarrow> (0, opts)
      | Some tmp \<Rightarrow>
          (let (rc, v) = opt_parse_interval tmp (long_interval opts)
           in if rc \<noteq> 0 then (- 1, opts\<lparr>long_interval := v\<rparr>) else (0, opts\<lparr>long_interval := v\<rparr>)))"

definition cfg_exclude_cpus :: "'m lib \<Rightarrow> lub_ini_t \<Rightarrow> 'm cfg_step" where
  "cfg_exclude_cpus L ini opts =
     (case lub_ini_find ini ''exclude-cpus'' of
        None \<Rightarrow> (0, opts)
      | Some tmp \<Rightarrow>
          (let (rc, m) = cpumask_parse_user L tmp
           in if rc \<noteq> 0 then (- 1, opts\<lparr>exclude_cpus := m\<rparr>) else (0, opts\<lparr>exclude_cpus := m\<rparr>)))"

text \<open>The local \<^verbatim>\<open>use_cpus\<close>: parsed or set to all, then complemented and joined
  into \<^verbatim>\<open>opts->exclude_cpus\<close>.\<close>

definition cfg_use_cpus :: "'n::len cpumask_t lib \<Rightarrow> lub_ini_t \<Rightarrow> 'n cpumask_t cfg_step" where
  "cfg_use_cpus L ini opts =
     (case (case lub_ini_find ini ''use-cpus'' of
              None \<Rightarrow> (0, cpus_setall)
            | Some tmp \<Rightarrow> cpumask_parse_user L tmp) of
        (rc, use_cpus) \<Rightarrow>
          if rc \<noteq> 0 then (- 1, opts)
          else (0, opts\<lparr>exclude_cpus := cpus_or (exclude_cpus opts) (cpus_complement use_cpus)\<rparr>))"

definition cfg_ht :: "lub_ini_t \<Rightarrow> 'm cfg_step" where
  "cfg_ht ini opts =
     (case lub_ini_find ini ''ht'' of
        None \<Rightarrow> (0, opts)
      | Some tmp \<Rightarrow>
          (let (rc, v) = opt_parse_y_n tmp (ht opts)
           in if rc \<noteq> 0 then (- 1, opts\<lparr>ht := v\<rparr>) else (0, opts\<lparr>ht := v\<rparr>)))"

definition cfg_non_local_cpus :: "lub_ini_t \<Rightarrow> 'm cfg_step" where
  "cfg_non_local_cpus ini opts =
     (case lub_ini_find ini ''non-local-cpus'' of
        None \<Rightarrow> (0, opts)
      | Some tmp \<Rightarrow>
          (let (rc, v) = opt_parse_y_n tmp (non_local_cpus opts)
           in if rc \<noteq> 0 then (- 1, opts\<lparr>non_local_cpus := v\<rparr>) else (0, opts\<lparr>non_local_cpus := v\<rparr>)))"

definition parse_config :: "'n::len cpumask_t lib \<Rightarrow> 'z world_scheme \<Rightarrow> string \<Rightarrow> 'n cpumask_t options \<Rightarrow> int \<times> 'n cpumask_t options" where
  "parse_config L W fname opts0 =
     (let opts = opts_default_config L opts0
      in case lub_ini_parse_file W fname of
           None \<Rightarrow> (- 1, opts)
         | Some ini \<Rightarrow>
             and_then (and_then (and_then (and_then (and_then (and_then (and_then (and_then
               (cfg_strategy ini opts)
               (cfg_threshold L ini))
               (cfg_load_limit L ini))
               (cfg_short_interval ini))
               (cfg_long_interval ini))
               (cfg_exclude_cpus L ini))
               (cfg_use_cpus L ini))
               (cfg_ht ini))
               (cfg_non_local_cpus ini))"


subsection \<open>The command line\<close>

text \<open>
  \<^verbatim>\<open>getopt_long\<close> (and \<^verbatim>\<open>getopt\<close> when \<^verbatim>\<open>HAVE_GETOPT_H\<close> is not defined) as
  the list of what its successive calls return before \<^verbatim>\<open>-1\<close>: the option
  character, \<^verbatim>\<open>?\<close> for an unknown option or a missing argument, with
  \<^verbatim>\<open>optarg\<close> (empty for an option that takes none; the source reads it only for
  options with an argument). Arguments that are not options are passed over, and
  \<^verbatim>\<open>--\<close> ends the scan, as in the GNU library.
\<close>

type_synonym getopt_ret = "char \<times> string"

type_synonym longopt = "string \<times> bool \<times> char"

text \<open>Whether an option character is in the option string, and whether it is followed
  by a colon.\<close>

fun shortopt_lookup :: "string \<Rightarrow> char \<Rightarrow> bool option" where
  "shortopt_lookup [] c = None"
| "shortopt_lookup (x # xs) c =
     (if x = c \<and> c \<noteq> CHR '':'' then Some (take 1 xs = '':'') else shortopt_lookup xs c)"

text \<open>One argument \<^verbatim>\<open>-abc\<close>, after the dash. The second component is the option
  that still waits for its argument in the next element of \<^verbatim>\<open>argv\<close>.\<close>

fun getopt_cluster :: "string \<Rightarrow> string \<Rightarrow> getopt_ret list \<times> char option" where
  "getopt_cluster so [] = ([], None)"
| "getopt_cluster so (c # cs) =
     (case shortopt_lookup so c of
        None \<Rightarrow> (case getopt_cluster so cs of (rs, p) \<Rightarrow> ((CHR ''?'', []) # rs, p))
      | Some False \<Rightarrow> (case getopt_cluster so cs of (rs, p) \<Rightarrow> ((c, []) # rs, p))
      | Some True \<Rightarrow> (if cs \<noteq> [] then ([(c, cs)], None) else ([], Some c)))"

text \<open>A long option is found by its full name or by an abbreviation that fits one
  name only.\<close>

definition find_longopt :: "longopt list \<Rightarrow> string \<Rightarrow> longopt option" where
  "find_longopt los name =
     (case filter (\<lambda>lo. fst lo = name) los of
        x # _ \<Rightarrow> Some x
      | [] \<Rightarrow> (case filter (\<lambda>lo. take (length name) (fst lo) = name) los of
                 [x] \<Rightarrow> Some x
               | _ \<Rightarrow> None))"

text \<open>One argument \<^verbatim>\<open>--name\<close> or \<^verbatim>\<open>--name=value\<close>, after the two dashes.\<close>

definition getopt_longarg :: "longopt list \<Rightarrow> string \<Rightarrow> getopt_ret list \<times> char option" where
  "getopt_longarg los a =
     (let name = takeWhile (\<lambda>c. c \<noteq> CHR ''='') a;
          rest = dropWhile (\<lambda>c. c \<noteq> CHR ''='') a
      in case find_longopt los name of
           None \<Rightarrow> ([(CHR ''?'', [])], None)
         | Some (n, has_arg, val) \<Rightarrow>
             if rest \<noteq> [] then (if has_arg then ([(val, drop 1 rest)], None) else ([(CHR ''?'', [])], None))
             else if has_arg then ([], Some val)
             else ([(val, [])], None))"

fun getopt_scan :: "bool \<Rightarrow> string \<Rightarrow> longopt list \<Rightarrow> char option \<Rightarrow> string list \<Rightarrow> getopt_ret list" where
  "getopt_scan lng so los (Some c) [] = [(CHR ''?'', [])]"
| "getopt_scan lng so los (Some c) (a # as) = (c, a) # getopt_scan lng so los None as"
| "getopt_scan lng so los None [] = []"
| "getopt_scan lng so los None (a # as) =
     (if a = ''--'' then []
      else if lng \<and> take 2 a = ''--'' then
        fst (getopt_longarg los (drop 2 a)) @ getopt_scan lng so los (snd (getopt_longarg los (drop 2 a))) as
      else if take 1 a = ''-'' \<and> a \<noteq> ''-'' then
        fst (getopt_cluster so (drop 1 a)) @ getopt_scan lng so los (snd (getopt_cluster so (drop 1 a))) as
      else getopt_scan lng so los None as)"

definition shortopts :: string where
  "shortopts = ''hp:c:dO:vx:''"

definition longopts :: "longopt list" where
  "longopts =
     [(''help'', False, CHR ''h''),
      (''pid'', True, CHR ''p''),
      (''conf'', True, CHR ''c''),
      (''debug'', False, CHR ''d''),
      (''facility'', True, CHR ''O''),
      (''verbose'', False, CHR ''v''),
      (''pxm'', True, CHR ''x'')]"

text \<open>A function that may call \<^verbatim>\<open>exit\<close>: the status it exits with, or what it
  returns.\<close>

datatype 'a proc = Exited int | Returned 'a

text \<open>The \<^verbatim>\<open>switch\<close> of \<^verbatim>\<open>opts_parse\<close>, once for each return of getopt.\<close>

fun opts_parse_loop :: "'m lib \<Rightarrow> getopt_ret list \<Rightarrow> 'm options \<Rightarrow> 'm options proc" where
  "opts_parse_loop L [] opts = Returned opts"
| "opts_parse_loop L ((opt, optarg) # rest) opts =
     (if opt = CHR ''p'' then opts_parse_loop L rest (opts\<lparr>pidfile := optarg\<rparr>)
      else if opt = CHR ''c'' then
        opts_parse_loop L rest (opts\<lparr>cfgfile := optarg, cfgfile_userdefined := 1\<rparr>)
      else if opt = CHR ''x'' then opts_parse_loop L rest (opts\<lparr>pxm := Some optarg\<rparr>)
      else if opt = CHR ''d'' then opts_parse_loop L rest (opts\<lparr>debug := 1\<rparr>)
      else if opt = CHR ''v'' then opts_parse_loop L rest (opts\<lparr>verbose := 1\<rparr>)
      else if opt = CHR ''O'' then
        (case lub_log_facility L optarg of
           None \<Rightarrow> Exited (- 1)
         | Some f \<Rightarrow> opts_parse_loop L rest (opts\<lparr>log_facility := f\<rparr>))
      else if opt = CHR ''h'' then Exited 0
      else Exited (- 1))"

definition opts_parse :: "'m lib \<Rightarrow> string list \<Rightarrow> 'm options \<Rightarrow> (int \<times> 'm options) proc" where
  "opts_parse L argv opts =
     (case opts_parse_loop L (getopt_scan (HAVE_GETOPT_H L) shortopts longopts None (drop 1 argv)) opts of
        Exited st \<Rightarrow> Exited st
      | Returned opts' \<Rightarrow> Returned (0, opts'))"


section \<open>The daemon\<close>

subsection \<open>What main observes and does\<close>

text \<open>
  The calls of \<^verbatim>\<open>main\<close> that reach outside the process, in the order they are
  made. Text written to the standard streams is left out.
\<close>

datatype event =
    Openlog
  | Syslog string
  | Daemon
  | Open_pidfile string
  | Write_pidfile
  | Close_pidfile
  | Unlink_pidfile string
  | Srand
  | Scan_numas
  | Show_numas
  | Scan_cpus int
  | Show_cpus
  | Parse_pxm_config string
  | Show_pxms
  | Reconfig_check
  | Reread_config string
  | Scan_irqs
  | Irq_list_show
  | Link_irqs_to_cpus
  | Gather_statistics
  | Show_statistics
  | Choose_irqs_to_move
  | Balance
  | Apply_affinity
  | Free_balance_irqs
  | Sleep "32 word"
  | Free_data

text \<open>
  The lists \<^verbatim>\<open>main\<close> owns. The balance queue is a list of its entries; the IRQ,
  CPU, NUMA and proximity lists, with the objects they share, are one value of a type
  that \<^verbatim>\<open>birq.c\<close> never looks into.
\<close>

record ('q, 's) engine =
  balance_irqs :: "'q list"
  registry :: 's

text \<open>
  The surroundings at startup: the file system, what \<^verbatim>\<open>daemon\<close>, \<^verbatim>\<open>open\<close>
  and \<^verbatim>\<open>write\<close> return, the scanners of the other units and the content of the
  new empty lists.
\<close>

record ('q, 's) startup = world +
  daemon_ret :: int
  open_ret :: "string \<Rightarrow> int"
  write_ret :: int
  registry_new :: 's
  scan_numas :: "('q, 's) engine \<Rightarrow> ('q, 's) engine"
  scan_cpus :: "int \<Rightarrow> ('q, 's) engine \<Rightarrow> ('q, 's) engine"
  parse_pxm_config :: "string \<Rightarrow> ('q, 's) engine \<Rightarrow> ('q, 's) engine"

text \<open>
  The surroundings of one tick: the value of the flag \<^verbatim>\<open>sighup\<close> when the loop
  tests it, the file system, and the stages of the other units as they act on the
  lists during this tick.
\<close>

record ('m, 'q, 's) tick_world = world +
  sighup :: bool
  scan_irqs :: "('q, 's) engine \<Rightarrow> ('q, 's) engine"
  link_irqs_to_cpus :: "('q, 's) engine \<Rightarrow> ('q, 's) engine"
  gather_statistics :: "('q, 's) engine \<Rightarrow> ('q, 's) engine"
  choose_irqs_to_move :: "cfloat \<Rightarrow> birq_choose_strategy_e \<Rightarrow> 'm \<Rightarrow> ('q, 's) engine \<Rightarrow> ('q, 's) engine"
  balance :: "cfloat \<Rightarrow> 'm \<Rightarrow> int \<Rightarrow> ('q, 's) engine \<Rightarrow> ('q, 's) engine"
  apply_affinity :: "('q, 's) engine \<Rightarrow> ('q, 's) engine"

subsection \<open>One tick\<close>

text \<open>The block under \<^verbatim>\<open>if (sighup)\<close>.\<close>

definition reread_config :: "'n::len cpumask_t lib \<Rightarrow> ('n cpumask_t, 'q, 's) tick_world \<Rightarrow> 'n cpumask_t options
    \<Rightarrow> event list \<times> 'n cpumask_t options" where
  "reread_config L T opts =
     (if sighup T then
        (if access_R_OK T (cfgfile opts) then
           (case parse_config L T (cfgfile opts) opts of
              (rc, opts') \<Rightarrow>
                if rc \<noteq> 0 then
                  ([Syslog ''Re-reading config file'', Reread_config (cfgfile opts),
                    Syslog ''Error while config file parsing.''], opts')
                else ([Syslog ''Re-reading config file'', Reread_config (cfgfile opts)], opts'))
         else if cfgfile_userdefined opts \<noteq> 0 then ([Syslog ''Can't find config file.''], opts)
         else ([], opts))
      else ([], opts))"

text \<open>The loop that empties the balance queue from its tail.\<close>

function free_balance_irqs :: "'q list \<Rightarrow> 'q list" where
  "free_balance_irqs l = (if l = [] then l else free_balance_irqs (butlast l))"
  by pat_completeness auto
termination
  by (relation "measure length") auto

declare free_balance_irqs.simps [simp del]

definition tick :: "'n::len cpumask_t lib \<Rightarrow> ('n cpumask_t, 'q, 's) tick_world \<Rightarrow> 'n cpumask_t options \<Rightarrow> ('q, 's) engine
    \<Rightarrow> event list \<times> 'n cpumask_t options \<times> ('q, 's) engine" where
  "tick L T opts0 eng0 =
     (case reread_config L T opts0 of
        (ev, opts) \<Rightarrow>
          (let eng1 = scan_irqs T eng0;
               eng2 = link_irqs_to_cpus T eng1;
               eng3 = gather_statistics T eng2;
               eng4 = choose_irqs_to_move T (threshold opts) (strategy opts) (exclude_cpus opts) eng3;
               before = [Reconfig_check] @ ev @ [Scan_irqs]
                   @ (if verbose opts \<noteq> 0 then [Irq_list_show] else [])
                   @ [Link_irqs_to_cpus, Gather_statistics, Show_statistics, Choose_irqs_to_move]
           in if length (balance_irqs eng4) \<noteq> 0 then
                (let eng5 = balance T (load_limit opts) (exclude_cpus opts) (non_local_cpus opts) eng4;
                     eng6 = apply_affinity T eng5;
                     eng7 = eng6\<lparr>balance_irqs := free_balance_irqs (balance_irqs eng6)\<rparr>
                 in (before @ [Balance, Apply_affinity, Free_balance_irqs, Sleep (short_interval opts)],
                     opts, eng7))
              else (before @ [Sleep (long_interval opts)], opts, eng4)))"

text \<open>
  \<^verbatim>\<open>while (!sigterm)\<close>: the list holds the surroundings of the ticks that begin
  before a termination signal sets the flag.
\<close>

fun main_loop :: "'n::len cpumask_t lib \<Rightarrow> ('n cpumask_t, 'q, 's) tick_world list \<Rightarrow> 'n cpumask_t options \<Rightarrow> ('q, 's) engine
    \<Rightarrow> event list \<times> 'n cpumask_t options \<times> ('q, 's) engine" where
  "main_loop L [] opts eng = ([], opts, eng)"
| "main_loop L (T # Ts) opts eng =
     (case tick L T opts eng of
        (ev, opts', eng') \<Rightarrow>
          (case main_loop L Ts opts' eng' of
             (evs, opts'', eng'') \<Rightarrow> (ev @ evs, opts'', eng'')))"

subsection \<open>main\<close>

text \<open>The config file at startup: the return code is non-zero where the source
  jumps to \<^verbatim>\<open>err\<close>.\<close>

definition startup_config :: "'n::len cpumask_t lib \<Rightarrow> 'z world_scheme \<Rightarrow> 'n cpumask_t options \<Rightarrow> int \<times> 'n cpumask_t options" where
  "startup_config L W opts =
     (if access_R_OK W (cfgfile opts) then
        (case parse_config L W (cfgfile opts) opts of
           (rc, opts') \<Rightarrow> if rc \<noteq> 0 then (- 1, opts') else (0, opts'))
      else if cfgfile_userdefined opts \<noteq> 0 then (- 1, opts)
      else (0, opts))"

text \<open>The block under \<^verbatim>\<open>if (!opts->debug)\<close>: what it does, whether it jumps to
  \<^verbatim>\<open>err\<close>, and \<^verbatim>\<open>pidfd\<close> afterwards (initially \<^verbatim>\<open>-1\<close>).\<close>

definition daemonize :: "('q, 's) startup \<Rightarrow> 'm options \<Rightarrow> event list \<times> bool \<times> int" where
  "daemonize S opts =
     (if debug opts = 0 then
        (if daemon_ret S < 0 then ([Daemon, Syslog ''Can't daemonize''], True, - 1)
         else
           (let pidfd = open_ret S (pidfile opts)
            in if pidfd < 0 then
                 ([Daemon, Open_pidfile (pidfile opts), Syslog ''Can't open pidfile''], False, pidfd)
               else
                 ([Daemon, Open_pidfile (pidfile opts), Write_pidfile]
                    @ (if write_ret S < 0 then [Syslog ''Can't write to pidfile''] else [])
                    @ [Close_pidfile], False, pidfd)))
      else ([], False, - 1))"

text \<open>The code at the label \<^verbatim>\<open>err\<close>, which the normal end of \<^verbatim>\<open>main\<close> runs
  as well.\<close>

definition main_err :: "int \<Rightarrow> 'm options \<Rightarrow> int \<Rightarrow> event list \<times> int" where
  "main_err pidfd opts retval =
     ((if pidfd \<ge> 0 then [Unlink_pidfile (pidfile opts)] else []) @ [Syslog ''Stop daemon.''], retval)"

text \<open>The scans between the signal handlers and the loop.\<close>

definition prepare :: "('q, 's) startup \<Rightarrow> 'm options \<Rightarrow> event list \<times> ('q, 's) engine" where
  "prepare S opts =
     (let eng0 = \<lparr>balance_irqs = [], registry = registry_new S\<rparr>;
          eng1 = scan_numas S eng0;
          eng2 = scan_cpus S (ht opts) eng1;
          eng3 = (case pxm opts of None \<Rightarrow> eng2 | Some f \<Rightarrow> parse_pxm_config S f eng2)
      in ([Srand, Scan_numas] @ (if verbose opts \<noteq> 0 then [Show_numas] else [])
            @ [Scan_cpus (ht opts)] @ (if verbose opts \<noteq> 0 then [Show_cpus] else [])
            @ (case pxm opts of None \<Rightarrow> [] | Some f \<Rightarrow> [Parse_pxm_config f])
            @ (if verbose opts \<noteq> 0 then [Show_pxms] else []),
          eng3))"

definition emit :: "event list \<Rightarrow> event list \<times> 'a \<Rightarrow> event list \<times> 'a" where
  "emit evs r = (evs @ fst r, snd r)"

text \<open>
  \<^verbatim>\<open>main\<close>: what it does and the value it returns or hands to \<^verbatim>\<open>exit\<close>.
  \<open>heap\<close> is the content of the allocation in \<^verbatim>\<open>opts_init\<close>, \<open>Ts\<close> the ticks
  before the termination signal.
\<close>

definition main :: "'n::len cpumask_t lib \<Rightarrow> ('q, 's) startup \<Rightarrow> ('n cpumask_t, 'q, 's) tick_world list
    \<Rightarrow> 'n cpumask_t options \<Rightarrow> string list \<Rightarrow> event list \<times> int" where
  "main L S Ts heap argv =
     (case opts_parse L argv (opts_init L heap) of
        Exited st \<Rightarrow> ([], st)
      | Returned (rc0, opts0) \<Rightarrow>
          if rc0 \<noteq> 0 then main_err (- 1) opts0 (- 1)
          else
            (case startup_config L S opts0 of
               (rc1, opts1) \<Rightarrow>
                 if rc1 \<noteq> 0 then main_err (- 1) opts1 (- 1)
                 else
                   emit [Openlog, Syslog ''Start daemon.'']
                     (case daemonize S opts1 of
                        (ev, failed, pidfd) \<Rightarrow>
                          emit ev
                            (if failed then main_err pidfd opts1 (- 1)
                             else
                               (case prepare S opts1 of
                                  (ev2, eng) \<Rightarrow>
                                    emit ev2
                                      (case main_loop L Ts opts1 eng of
                                         (ev3, opts2, eng') \<Rightarrow>
                                           emit (ev3 @ [Free_data]) (main_err pidfd opts2 0)))))))"

text \<open>The exit status of the process as its parent reads it: the low eight bits.\<close>

definition exit_status :: "int \<Rightarrow> int" where
  "exit_status v = v mod 256"


section \<open>Vocabulary of the properties\<close>

text \<open>The options set from the command line, and those set from the config file.\<close>

definition cli_part :: "'m options \<Rightarrow> string \<times> string \<times> int \<times> string option \<times> int \<times> int \<times> int" where
  "cli_part opts =
     (pidfile opts, cfgfile opts, cfgfile_userdefined opts, pxm opts, debug opts,
      log_facility opts, verbose opts)"

definition cfg_part :: "'m options
    \<Rightarrow> birq_choose_strategy_e \<times> cfloat \<times> cfloat \<times> 32 word \<times> 32 word \<times> 'm \<times> int \<times> int" where
  "cfg_part opts =
     (strategy opts, threshold opts, load_limit opts, short_interval opts, long_interval opts,
      exclude_cpus opts, ht opts, non_local_cpus opts)"

text \<open>The values each parser accepts.\<close>

definition y_n_ok :: "string \<Rightarrow> bool" where
  "y_n_ok v = (v = ''y'' \<or> v = ''yes'' \<or> v = ''n'' \<or> v = ''no'')"

definition strategy_ok :: "string \<Rightarrow> bool" where
  "strategy_ok v = (v = ''max'' \<or> v = ''min'' \<or> v = ''rnd'')"

definition threshold_ok :: "'m lib \<Rightarrow> string \<Rightarrow> bool" where
  "threshold_ok L v = (snd (strtof L v) \<noteq> 0 \<and> \<not> cfloat_gt (fst (strtof L v)) 100)"

definition interval_ok :: "string \<Rightarrow> bool" where
  "interval_ok v = (snd (strtoul v) \<noteq> 0)"

definition mask_ok :: "'m lib \<Rightarrow> string \<Rightarrow> bool" where
  "mask_ok L v = (fst (cpumask_parse_user L v) = 0)"

definition key_ok :: "lub_ini_t \<Rightarrow> string \<Rightarrow> (string \<Rightarrow> bool) \<Rightarrow> bool" where
  "key_ok ini name ok = (case lub_ini_find ini name of None \<Rightarrow> True | Some v \<Rightarrow> ok v)"

definition ini_ok :: "'m lib \<Rightarrow> lub_ini_t \<Rightarrow> bool" where
  "ini_ok L ini =
     (key_ok ini ''strategy'' strategy_ok \<and> key_ok ini ''threshold'' (threshold_ok L)
      \<and> key_ok ini ''load-limit'' (threshold_ok L) \<and> key_ok ini ''short-interval'' interval_ok
      \<and> key_ok ini ''long-interval'' interval_ok \<and> key_ok ini ''exclude-cpus'' (mask_ok L)
      \<and> key_ok ini ''use-cpus'' (mask_ok L) \<and> key_ok ini ''ht'' y_n_ok
      \<and> key_ok ini ''non-local-cpus'' y_n_ok)"

text \<open>What the successive calls of getopt return for a command line.\<close>

definition getopt_returns :: "'m lib \<Rightarrow> string list \<Rightarrow> getopt_ret list" where
  "getopt_returns L argv = getopt_scan (HAVE_GETOPT_H L) shortopts longopts None (drop 1 argv)"

text \<open>The option that an argument of the command line leaves waiting for the next
  argument, and the arguments that leave none and do not end the scan.\<close>

definition leaves_waiting :: "bool \<Rightarrow> string \<Rightarrow> char option" where
  "leaves_waiting lng a =
     (if lng \<and> take 2 a = ''--'' then snd (getopt_longarg longopts (drop 2 a))
      else if take 1 a = ''-'' \<and> a \<noteq> ''-'' then snd (getopt_cluster shortopts (drop 1 a))
      else None)"

definition self_contained :: "bool \<Rightarrow> string \<Rightarrow> bool" where
  "self_contained lng a = (a \<noteq> ''--'' \<and> leaves_waiting lng a = None)"

text \<open>The stages of a tick that the loop is described by, and the calls that touch
  the pidfile or detach the process.\<close>

fun is_stage :: "event \<Rightarrow> bool" where
  "is_stage Reconfig_check = True"
| "is_stage Scan_irqs = True"
| "is_stage Link_irqs_to_cpus = True"
| "is_stage Gather_statistics = True"
| "is_stage Choose_irqs_to_move = True"
| "is_stage Balance = True"
| "is_stage Apply_affinity = True"
| "is_stage Free_balance_irqs = True"
| "is_stage (Sleep n) = True"
| "is_stage _ = False"

fun is_pidfile_event :: "event \<Rightarrow> bool" where
  "is_pidfile_event Daemon = True"
| "is_pidfile_event (Open_pidfile p) = True"
| "is_pidfile_event Write_pidfile = True"
| "is_pidfile_event Close_pidfile = True"
| "is_pidfile_event (Unlink_pidfile p) = True"
| "is_pidfile_event _ = False"

text \<open>The balance queue when the loop tests its length.\<close>

definition queue_after_choose :: "'n::len cpumask_t lib \<Rightarrow> ('n cpumask_t, 'q, 's) tick_world \<Rightarrow> 'n cpumask_t options
    \<Rightarrow> ('q, 's) engine \<Rightarrow> 'q list" where
  "queue_after_choose L T opts eng =
     (let opts' = snd (reread_config L T opts)
      in balance_irqs (choose_irqs_to_move T (threshold opts') (strategy opts') (exclude_cpus opts')
           (gather_statistics T (link_irqs_to_cpus T (scan_irqs T eng)))))"

section \<open>Concrete surroundings\<close>

text \<open>
  Instances of the parameters, for evaluating the definitions on concrete inputs: a
  machine with eight CPU bits, the constants as the spec gives them, and small
  stand-ins for the functions of other units.
\<close>

text \<open>\<^verbatim>\<open>strtof\<close> on plain decimal text, white space and sign first, then digits with an
  optional fraction. Exponents, hexadecimal and the special values are not read, and
  the value is not rounded to the float format.\<close>

definition strtof_plain :: "string \<Rightarrow> cfloat \<times> nat" where
  "strtof_plain nptr =
     (let ws = takeWhile isspace nptr;
          s1 = dropWhile isspace nptr;
          sg = sign_len s1;
          ip = takeWhile isdigit (drop sg s1);
          s3 = drop (sg + length ip) s1;
          fp = (if take 1 s3 = ''.'' then takeWhile isdigit (drop 1 s3) else []);
          v = real (digits_value 0 ip) + real (digits_value 0 fp) / 10 ^ length fp
      in if ip = [] \<and> fp = [] then (Finite 0, 0)
         else (Finite (if take sg s1 = ''-'' then - v else v),
               length ws + sg + length ip + (if take 1 s3 = ''.'' then 1 + length fp else 0)))"

text \<open>Modelled from the spec: the parser of the kernel's mask format is absent; the
  spec's \<^verbatim>\<open>parse_kernel_hex\<close> reads hexadecimal digits, case-insensitive.\<close>

definition hex_digit :: "char \<Rightarrow> nat option" where
  "hex_digit c =
     (let n = (of_char c :: nat)
      in if 48 \<le> n \<and> n \<le> 57 then Some (n - 48)
         else if 97 \<le> n \<and> n \<le> 102 then Some (n - 87)
         else if 65 \<le> n \<and> n \<le> 70 then Some (n - 55)
         else None)"

text \<open>Modelled from the spec: the parser of the kernel's mask format is absent; the
  spec's \<^verbatim>\<open>parse_kernel_hex\<close> accepts groups of up to eight digits separated by
  commas, the rightmost group being bits 0 to 31, and fails on any other character and
  on an unexpected comma. The arguments are the value of the groups before the current
  one, the value of the current group and the number of its digits.\<close>

fun hex_groups :: "nat \<Rightarrow> nat \<Rightarrow> nat \<Rightarrow> string \<Rightarrow> nat option" where
  "hex_groups hi cur k [] = (if k = 0 then None else Some (hi * 2 ^ 32 + cur))"
| "hex_groups hi cur k (c # cs) =
     (if c = CHR '','' then (if k = 0 then None else hex_groups (hi * 2 ^ 32 + cur) 0 0 cs)
      else (case hex_digit c of
              None \<Rightarrow> None
            | Some d \<Rightarrow> if k = 8 then None else hex_groups hi (cur * 16 + d) (k + 1) cs))"

text \<open>Modelled from the spec: the parser of the kernel's mask format is absent; the
  spec's \<^verbatim>\<open>parse_kernel_hex\<close> as \<^verbatim>\<open>cpumask_parse_user\<close> returns it, with a
  non-zero code and an empty mask for \<^verbatim>\<open>InvalidMask\<close>.\<close>

definition parse_kernel_hex :: "string \<Rightarrow> int \<times> 'n::len cpumask_t" where
  "parse_kernel_hex s = (case hex_groups 0 0 0 s of None \<Rightarrow> (- 22, 0) | Some n \<Rightarrow> (0, of_nat n))"

definition sample_facility :: "string \<Rightarrow> int option" where
  "sample_facility s = (if s = ''daemon'' then Some 24 else if s = ''local0'' then Some 128 else None)"

definition sample_lib :: "8 cpumask_t lib" where
  "sample_lib =
     \<lparr> BIRQ_PIDFILE = ''/var/run/birq.pid'',
       BIRQ_CFGFILE = ''/etc/birq.conf'',
       BIRQ_DEFAULT_THRESHOLD = Finite 99,
       BIRQ_DEFAULT_LOAD_LIMIT = Finite 99,
       BIRQ_LONG_INTERVAL = 5,
       BIRQ_SHORT_INTERVAL = 2,
       HAVE_GETOPT_H = True,
       cpus_init = 0,
       strtof = strtof_plain,
       cpumask_parse_user = parse_kernel_hex,
       lub_log_facility = sample_facility \<rparr>"

text \<open>A zero-filled allocation, as a fresh heap page is.\<close>

definition zero_heap :: "8 cpumask_t options" where
  "zero_heap =
     \<lparr> pidfile = [], cfgfile = [], cfgfile_userdefined = 0, pxm = None, debug = 0,
       log_facility = 0, threshold = Finite 0, load_limit = Finite 0, verbose = 0, ht = 0,
       non_local_cpus = 0, long_interval = 0, short_interval = 0,
       strategy = BIRQ_CHOOSE_MAX, exclude_cpus = 0 \<rparr>"

text \<open>An active configuration that differs from every default.\<close>

definition tuned_opts :: "8 cpumask_t options" where
  "tuned_opts =
     \<lparr> pidfile = ''/var/run/birq.pid'', cfgfile = ''/etc/birq.conf'', cfgfile_userdefined = 0,
       pxm = None, debug = 0, log_facility = 24, threshold = Finite 80, load_limit = Finite 70,
       verbose = 0, ht = 0, non_local_cpus = 1, long_interval = 30, short_interval = 10,
       strategy = BIRQ_CHOOSE_MAX, exclude_cpus = 3 \<rparr>"

text \<open>A file system with at most the one config file: absent, or present with the
  outcome of loading it.\<close>

definition one_file :: "string \<Rightarrow> lub_ini_t option option \<Rightarrow> world" where
  "one_file path f =
     \<lparr> access_R_OK = (\<lambda>p. p = path \<and> f \<noteq> None),
       lub_ini_parse_file = (\<lambda>p. if p = path then (case f of None \<Rightarrow> None | Some r \<Rightarrow> r) else None) \<rparr>"

text \<open>Startup surroundings over that file system, with the given returns of
  \<^verbatim>\<open>daemon\<close> and \<^verbatim>\<open>open\<close>; the queue holds IRQ numbers and the scanners find
  nothing.\<close>

definition sample_startup :: "lub_ini_t option option \<Rightarrow> int \<Rightarrow> int \<Rightarrow> (nat, unit) startup" where
  "sample_startup f dret oret =
     world.extend (one_file ''/etc/birq.conf'' f)
       (startup.fields dret (\<lambda>p. oret) 0 () (\<lambda>e. e) (\<lambda>h e. e) (\<lambda>p e. e))"

text \<open>A tick in which the scan and the selection together queue the given IRQs.\<close>

definition sample_tick :: "bool \<Rightarrow> lub_ini_t option option \<Rightarrow> nat list \<Rightarrow> (8 cpumask_t, nat, unit) tick_world" where
  "sample_tick hup f chosen =
     world.extend (one_file ''/etc/birq.conf'' f)
       (tick_world.fields hup (\<lambda>e. e) (\<lambda>e. e) (\<lambda>e. e)
          (\<lambda>t s x e. e\<lparr>balance_irqs := balance_irqs e @ chosen\<rparr>) (\<lambda>l x n e. e) (\<lambda>e. e))"

text \<open>A tick without SIGHUP in which every stage appends its name to the registry, and
  the selection queues the given IRQs.\<close>

definition traced_tick :: "nat list \<Rightarrow> (8 cpumask_t, nat, string list) tick_world" where
  "traced_tick chosen =
     world.extend (one_file ''/etc/birq.conf'' None)
       (tick_world.fields False
          (\<lambda>e. e\<lparr>registry := registry e @ [''scan_irqs'']\<rparr>)
          (\<lambda>e. e\<lparr>registry := registry e @ [''link_irqs_to_cpus'']\<rparr>)
          (\<lambda>e. e\<lparr>registry := registry e @ [''gather_statistics'']\<rparr>)
          (\<lambda>t s x e. e\<lparr>balance_irqs := balance_irqs e @ chosen,
                        registry := registry e @ [''choose_irqs_to_move'']\<rparr>)
          (\<lambda>l x n e. e\<lparr>registry := registry e @ [''balance'']\<rparr>)
          (\<lambda>e. e\<lparr>registry := registry e @ [''apply_affinity'']\<rparr>))"

section \<open>Properties\<close>

subsection \<open>Config parsing, key by key\<close>

lemma and_then_ok: "fst (and_then r f) = 0 \<longleftrightarrow> fst r = 0 \<and> fst (f (snd r)) = 0"
  by (simp add: and_then_def)

lemma and_then_snd_ok: "fst r = 0 \<Longrightarrow> and_then r f = f (snd r)"
  by (simp add: and_then_def)

lemma and_then_cli:
  assumes "cli_part (snd r) = c" and "\<And>x. cli_part (snd (f x)) = cli_part x"
  shows "cli_part (snd (and_then r f)) = c"
  using assms by (simp add: and_then_def)

lemma snd_cfg_strategy:
  "snd (cfg_strategy ini opts) = opts\<lparr>strategy := (case lub_ini_find ini ''strategy'' of None \<Rightarrow> strategy opts | Some s \<Rightarrow> snd (opt_parse_strategy s (strategy opts)))\<rparr>"
  by (cases "lub_ini_find ini ''strategy''") (simp_all add: cfg_strategy_def case_prod_unfold Let_def)

lemma snd_cfg_threshold:
  "snd (cfg_threshold L ini opts) = opts\<lparr>threshold := (case lub_ini_find ini ''threshold'' of None \<Rightarrow> threshold opts | Some s \<Rightarrow> snd (opt_parse_threshold (strtof L) s (threshold opts)))\<rparr>"
  by (cases "lub_ini_find ini ''threshold''") (simp_all add: cfg_threshold_def case_prod_unfold Let_def)

lemma snd_cfg_load_limit:
  "snd (cfg_load_limit L ini opts) = opts\<lparr>load_limit := (case lub_ini_find ini ''load-limit'' of None \<Rightarrow> load_limit opts | Some s \<Rightarrow> snd (opt_parse_threshold (strtof L) s (load_limit opts)))\<rparr>"
  by (cases "lub_ini_find ini ''load-limit''") (simp_all add: cfg_load_limit_def case_prod_unfold Let_def)

lemma snd_cfg_short_interval:
  "snd (cfg_short_interval ini opts) = opts\<lparr>short_interval := (case lub_ini_find ini ''short-interval'' of None \<Rightarrow> short_interval opts | Some s \<Rightarrow> snd (opt_parse_interval s (short_interval opts)))\<rparr>"
  by (cases "lub_ini_find ini ''short-interval''") (simp_all add: cfg_short_interval_def case_prod_unfold Let_def)

lemma snd_cfg_long_interval:
  "snd (cfg_long_interval ini opts) = opts\<lparr>long_interval := (case lub_ini_find ini ''long-interval'' of None \<Rightarrow> long_interval opts | Some s \<Rightarrow> snd (opt_parse_interval s (long_interval opts)))\<rparr>"
  by (cases "lub_ini_find ini ''long-interval''") (simp_all add: cfg_long_interval_def case_prod_unfold Let_def)

lemma snd_cfg_exclude_cpus:
  "snd (cfg_exclude_cpus L ini opts) = opts\<lparr>exclude_cpus := (case lub_ini_find ini ''exclude-cpus'' of None \<Rightarrow> exclude_cpus opts | Some s \<Rightarrow> snd (cpumask_parse_user L s))\<rparr>"
  by (cases "lub_ini_find ini ''exclude-cpus''") (simp_all add: cfg_exclude_cpus_def case_prod_unfold Let_def)

lemma snd_cfg_use_cpus:
  "snd (cfg_use_cpus L ini opts) =
     (if fst (cfg_use_cpus L ini opts) \<noteq> 0 then opts
      else opts\<lparr>exclude_cpus := exclude_cpus opts OR
             NOT (case lub_ini_find ini ''use-cpus'' of None \<Rightarrow> - 1 | Some s \<Rightarrow> snd (cpumask_parse_user L s))\<rparr>)"
  by (cases "lub_ini_find ini ''use-cpus''")
     (simp_all add: cfg_use_cpus_def cpus_or_def cpus_complement_def cpus_setall_def case_prod_unfold)

lemma snd_cfg_ht:
  "snd (cfg_ht ini opts) = opts\<lparr>ht := (case lub_ini_find ini ''ht'' of None \<Rightarrow> ht opts | Some s \<Rightarrow> snd (opt_parse_y_n s (ht opts)))\<rparr>"
  by (cases "lub_ini_find ini ''ht''") (simp_all add: cfg_ht_def case_prod_unfold Let_def)

lemma snd_cfg_non_local_cpus:
  "snd (cfg_non_local_cpus ini opts) = opts\<lparr>non_local_cpus := (case lub_ini_find ini ''non-local-cpus'' of None \<Rightarrow> non_local_cpus opts | Some s \<Rightarrow> snd (opt_parse_y_n s (non_local_cpus opts)))\<rparr>"
  by (cases "lub_ini_find ini ''non-local-cpus''") (simp_all add: cfg_non_local_cpus_def case_prod_unfold Let_def)

lemma fst_opt_parse_y_n: "fst (opt_parse_y_n v f) = 0 \<longleftrightarrow> y_n_ok v"
  by (simp add: opt_parse_y_n_def y_n_ok_def)

lemma fst_opt_parse_strategy: "fst (opt_parse_strategy v s) < 0 \<longleftrightarrow> \<not> strategy_ok v"
  by (simp add: opt_parse_strategy_def strategy_ok_def)

lemma fst_opt_parse_threshold: "fst (opt_parse_threshold (strtof L) v t) = 0 \<longleftrightarrow> threshold_ok L v"
  by (simp add: opt_parse_threshold_def threshold_ok_def case_prod_unfold Let_def)

lemma fst_opt_parse_interval: "fst (opt_parse_interval v i) = 0 \<longleftrightarrow> interval_ok v"
  by (simp add: opt_parse_interval_def interval_ok_def case_prod_unfold Let_def)

lemma fst_cfg_strategy: "fst (cfg_strategy ini opts) = 0 \<longleftrightarrow> key_ok ini ''strategy'' strategy_ok"
  by (cases "lub_ini_find ini ''strategy''")
     (simp_all add: cfg_strategy_def key_ok_def case_prod_unfold Let_def fst_opt_parse_strategy)

lemma fst_cfg_threshold: "fst (cfg_threshold L ini opts) = 0 \<longleftrightarrow> key_ok ini ''threshold'' (threshold_ok L)"
  by (cases "lub_ini_find ini ''threshold''")
     (simp_all add: cfg_threshold_def key_ok_def case_prod_unfold Let_def fst_opt_parse_threshold)

lemma fst_cfg_load_limit: "fst (cfg_load_limit L ini opts) = 0 \<longleftrightarrow> key_ok ini ''load-limit'' (threshold_ok L)"
  by (cases "lub_ini_find ini ''load-limit''")
     (simp_all add: cfg_load_limit_def key_ok_def case_prod_unfold Let_def fst_opt_parse_threshold)

lemma fst_cfg_short_interval: "fst (cfg_short_interval ini opts) = 0 \<longleftrightarrow> key_ok ini ''short-interval'' interval_ok"
  by (cases "lub_ini_find ini ''short-interval''")
     (simp_all add: cfg_short_interval_def key_ok_def case_prod_unfold Let_def fst_opt_parse_interval)

lemma fst_cfg_long_interval: "fst (cfg_long_interval ini opts) = 0 \<longleftrightarrow> key_ok ini ''long-interval'' interval_ok"
  by (cases "lub_ini_find ini ''long-interval''")
     (simp_all add: cfg_long_interval_def key_ok_def case_prod_unfold Let_def fst_opt_parse_interval)

lemma fst_cfg_exclude_cpus: "fst (cfg_exclude_cpus L ini opts) = 0 \<longleftrightarrow> key_ok ini ''exclude-cpus'' (mask_ok L)"
  by (cases "lub_ini_find ini ''exclude-cpus''")
     (simp_all add: cfg_exclude_cpus_def key_ok_def case_prod_unfold Let_def mask_ok_def)

lemma fst_cfg_use_cpus: "fst (cfg_use_cpus L ini opts) = 0 \<longleftrightarrow> key_ok ini ''use-cpus'' (mask_ok L)"
  by (cases "lub_ini_find ini ''use-cpus''")
     (simp_all add: cfg_use_cpus_def key_ok_def case_prod_unfold Let_def mask_ok_def)

lemma fst_cfg_ht: "fst (cfg_ht ini opts) = 0 \<longleftrightarrow> key_ok ini ''ht'' y_n_ok"
  by (cases "lub_ini_find ini ''ht''")
     (simp_all add: cfg_ht_def key_ok_def case_prod_unfold Let_def fst_opt_parse_y_n)

lemma fst_cfg_non_local_cpus: "fst (cfg_non_local_cpus ini opts) = 0 \<longleftrightarrow> key_ok ini ''non-local-cpus'' y_n_ok"
  by (cases "lub_ini_find ini ''non-local-cpus''")
     (simp_all add: cfg_non_local_cpus_def key_ok_def case_prod_unfold Let_def fst_opt_parse_y_n)

lemmas fst_cfg = fst_cfg_strategy fst_cfg_threshold fst_cfg_load_limit fst_cfg_short_interval
  fst_cfg_long_interval fst_cfg_exclude_cpus fst_cfg_use_cpus fst_cfg_ht fst_cfg_non_local_cpus

lemmas snd_cfg = snd_cfg_strategy snd_cfg_threshold snd_cfg_load_limit snd_cfg_short_interval
  snd_cfg_long_interval snd_cfg_exclude_cpus snd_cfg_ht snd_cfg_non_local_cpus

lemma parse_config_None:
  "lub_ini_parse_file W fname = None \<Longrightarrow> parse_config L W fname opts = (- 1, opts_default_config L opts)"
  by (simp add: parse_config_def)

lemma fst_parse_config:
  "fst (parse_config L W fname opts) = 0 \<longleftrightarrow>
     (case lub_ini_parse_file W fname of None \<Rightarrow> False | Some ini \<Rightarrow> ini_ok L ini)"
  by (cases "lub_ini_parse_file W fname")
     (simp_all add: parse_config_def and_then_ok fst_cfg ini_ok_def)

lemma cli_part_default: "cli_part (opts_default_config L opts) = cli_part opts"
  by (simp add: cli_part_def opts_default_config_def)

lemma parse_config_cli: "cli_part (snd (parse_config L W fname opts)) = cli_part opts"
proof (cases "lub_ini_parse_file W fname")
  case None
  then show ?thesis by (simp add: parse_config_None cli_part_default)
next
  case (Some ini)
  show ?thesis
    unfolding parse_config_def Let_def Some option.case
    by (intro and_then_cli)
       (simp_all add: snd_cfg snd_cfg_use_cpus cli_part_def opts_default_config_def)
qed

lemma parse_config_indep:
  assumes "cli_part opts1 = cli_part opts2"
  shows "parse_config L W fname opts1 = parse_config L W fname opts2"
proof -
  have "opts_default_config L opts1 = opts_default_config L opts2"
    using assms by (simp add: opts_default_config_def cli_part_def)
  then show ?thesis by (simp add: parse_config_def)
qed



lemma parse_config_ok:
  assumes ini: "lub_ini_parse_file W fname = Some ini"
    and ok: "fst (parse_config L W fname opts) = 0"
  shows "cli_part (snd (parse_config L W fname opts)) = cli_part opts"
    and "strategy (snd (parse_config L W fname opts)) =
           (case lub_ini_find ini ''strategy'' of None \<Rightarrow> BIRQ_CHOOSE_RND
            | Some s \<Rightarrow> snd (opt_parse_strategy s BIRQ_CHOOSE_RND))"
    and "threshold (snd (parse_config L W fname opts)) =
           (case lub_ini_find ini ''threshold'' of None \<Rightarrow> BIRQ_DEFAULT_THRESHOLD L
            | Some s \<Rightarrow> fst (strtof L s))"
    and "load_limit (snd (parse_config L W fname opts)) =
           (case lub_ini_find ini ''load-limit'' of None \<Rightarrow> BIRQ_DEFAULT_LOAD_LIMIT L
            | Some s \<Rightarrow> fst (strtof L s))"
    and "short_interval (snd (parse_config L W fname opts)) =
           (case lub_ini_find ini ''short-interval'' of None \<Rightarrow> BIRQ_SHORT_INTERVAL L
            | Some s \<Rightarrow> ucast (fst (strtoul s)))"
    and "long_interval (snd (parse_config L W fname opts)) =
           (case lub_ini_find ini ''long-interval'' of None \<Rightarrow> BIRQ_LONG_INTERVAL L
            | Some s \<Rightarrow> ucast (fst (strtoul s)))"
    and "exclude_cpus (snd (parse_config L W fname opts)) =
           (case lub_ini_find ini ''exclude-cpus'' of None \<Rightarrow> 0 | Some s \<Rightarrow> snd (cpumask_parse_user L s))
           OR NOT (case lub_ini_find ini ''use-cpus'' of None \<Rightarrow> - 1 | Some s \<Rightarrow> snd (cpumask_parse_user L s))"
    and "ht (snd (parse_config L W fname opts)) =
           (case lub_ini_find ini ''ht'' of None \<Rightarrow> 1
            | Some s \<Rightarrow> if s = ''y'' \<or> s = ''yes'' then 1 else 0)"
    and "non_local_cpus (snd (parse_config L W fname opts)) =
           (case lub_ini_find ini ''non-local-cpus'' of None \<Rightarrow> 0
            | Some s \<Rightarrow> if s = ''y'' \<or> s = ''yes'' then 1 else 0)"
proof -
  from ok ini have k: "ini_ok L ini"
    by (simp add: fst_parse_config)
  define o0 where "o0 = opts_default_config L opts"
  define o1 where "o1 = snd (cfg_strategy ini o0)"
  define o2 where "o2 = snd (cfg_threshold L ini o1)"
  define o3 where "o3 = snd (cfg_load_limit L ini o2)"
  define o4 where "o4 = snd (cfg_short_interval ini o3)"
  define o5 where "o5 = snd (cfg_long_interval ini o4)"
  define o6 where "o6 = snd (cfg_exclude_cpus L ini o5)"
  define o7 where "o7 = snd (cfg_use_cpus L ini o6)"
  define o8 where "o8 = snd (cfg_ht ini o7)"
  define o9 where "o9 = snd (cfg_non_local_cpus ini o8)"
  have chain: "snd (parse_config L W fname opts) = o9"
    using k
    by (simp add: parse_config_def ini and_then_snd_ok and_then_ok fst_cfg ini_ok_def
        o0_def o1_def o2_def o3_def o4_def o5_def o6_def o7_def o8_def o9_def)
  have u: "fst (cfg_use_cpus L ini o6) = 0"
    using k by (simp add: fst_cfg ini_ok_def)
  have o7': "o7 = o6\<lparr>exclude_cpus := exclude_cpus o6 OR
             NOT (case lub_ini_find ini ''use-cpus'' of None \<Rightarrow> - 1 | Some s \<Rightarrow> snd (cpumask_parse_user L s))\<rparr>"
    unfolding o7_def using u by (subst snd_cfg_use_cpus) simp
  show "cli_part (snd (parse_config L W fname opts)) = cli_part opts"
    by (rule parse_config_cli)
  show "strategy (snd (parse_config L W fname opts)) =
           (case lub_ini_find ini ''strategy'' of None \<Rightarrow> BIRQ_CHOOSE_RND
            | Some s \<Rightarrow> snd (opt_parse_strategy s BIRQ_CHOOSE_RND))"
    unfolding chain o9_def o8_def o7' o6_def o5_def o4_def o3_def o2_def o1_def o0_def
    by (cases "lub_ini_find ini ''strategy''") (simp_all add: snd_cfg opts_default_config_def)
  show "threshold (snd (parse_config L W fname opts)) =
           (case lub_ini_find ini ''threshold'' of None \<Rightarrow> BIRQ_DEFAULT_THRESHOLD L
            | Some s \<Rightarrow> fst (strtof L s))"
    unfolding chain o9_def o8_def o7' o6_def o5_def o4_def o3_def o2_def o1_def o0_def
    using k
    by (cases "lub_ini_find ini ''threshold''")
       (simp_all add: snd_cfg opts_default_config_def ini_ok_def key_ok_def threshold_ok_def
          opt_parse_threshold_def case_prod_unfold Let_def)
  show "load_limit (snd (parse_config L W fname opts)) =
           (case lub_ini_find ini ''load-limit'' of None \<Rightarrow> BIRQ_DEFAULT_LOAD_LIMIT L
            | Some s \<Rightarrow> fst (strtof L s))"
    unfolding chain o9_def o8_def o7' o6_def o5_def o4_def o3_def o2_def o1_def o0_def
    using k
    by (cases "lub_ini_find ini ''load-limit''")
       (simp_all add: snd_cfg opts_default_config_def ini_ok_def key_ok_def threshold_ok_def
          opt_parse_threshold_def case_prod_unfold Let_def)
  show "short_interval (snd (parse_config L W fname opts)) =
           (case lub_ini_find ini ''short-interval'' of None \<Rightarrow> BIRQ_SHORT_INTERVAL L
            | Some s \<Rightarrow> ucast (fst (strtoul s)))"
    unfolding chain o9_def o8_def o7' o6_def o5_def o4_def o3_def o2_def o1_def o0_def
    using k
    by (cases "lub_ini_find ini ''short-interval''")
       (simp_all add: snd_cfg opts_default_config_def ini_ok_def key_ok_def interval_ok_def
          opt_parse_interval_def case_prod_unfold Let_def)
  show "long_interval (snd (parse_config L W fname opts)) =
           (case lub_ini_find ini ''long-interval'' of None \<Rightarrow> BIRQ_LONG_INTERVAL L
            | Some s \<Rightarrow> ucast (fst (strtoul s)))"
    unfolding chain o9_def o8_def o7' o6_def o5_def o4_def o3_def o2_def o1_def o0_def
    using k
    by (cases "lub_ini_find ini ''long-interval''")
       (simp_all add: snd_cfg opts_default_config_def ini_ok_def key_ok_def interval_ok_def
          opt_parse_interval_def case_prod_unfold Let_def)
  show "exclude_cpus (snd (parse_config L W fname opts)) =
           (case lub_ini_find ini ''exclude-cpus'' of None \<Rightarrow> 0 | Some s \<Rightarrow> snd (cpumask_parse_user L s))
           OR NOT (case lub_ini_find ini ''use-cpus'' of None \<Rightarrow> - 1 | Some s \<Rightarrow> snd (cpumask_parse_user L s))"
    unfolding chain o9_def o8_def o7' o6_def o5_def o4_def o3_def o2_def o1_def o0_def
    by (cases "lub_ini_find ini ''exclude-cpus''")
       (simp_all add: snd_cfg opts_default_config_def cpus_clear_def)
  show "ht (snd (parse_config L W fname opts)) =
           (case lub_ini_find ini ''ht'' of None \<Rightarrow> 1
            | Some s \<Rightarrow> if s = ''y'' \<or> s = ''yes'' then 1 else 0)"
    unfolding chain o9_def o8_def o7' o6_def o5_def o4_def o3_def o2_def o1_def o0_def
    using k
    by (cases "lub_ini_find ini ''ht''")
       (auto simp add: snd_cfg opts_default_config_def ini_ok_def key_ok_def y_n_ok_def
          opt_parse_y_n_def)
  show "non_local_cpus (snd (parse_config L W fname opts)) =
           (case lub_ini_find ini ''non-local-cpus'' of None \<Rightarrow> 0
            | Some s \<Rightarrow> if s = ''y'' \<or> s = ''yes'' then 1 else 0)"
    unfolding chain o9_def o8_def o7' o6_def o5_def o4_def o3_def o2_def o1_def o0_def
    using k
    by (cases "lub_ini_find ini ''non-local-cpus''")
       (auto simp add: snd_cfg opts_default_config_def ini_ok_def key_ok_def y_n_ok_def
          opt_parse_y_n_def)
qed


lemma parse_config_fails:
  assumes "lub_ini_parse_file W fname = Some ini" and "\<not> ini_ok L ini"
  shows "fst (parse_config L W fname opts) \<noteq> 0"
  using assms by (simp add: fst_parse_config)

lemma one_file_simps:
  "access_R_OK (one_file p f) q = (q = p \<and> f \<noteq> None)"
  "lub_ini_parse_file (one_file p (Some r)) p = r"
  "lub_ini_parse_file (one_file p None) q = None"
  by (simp_all add: one_file_def)

subsection \<open>The yes/no keys\<close>

text \<open>
  Claim C9. For the keys \<^verbatim>\<open>ht\<close> and \<^verbatim>\<open>non-local-cpus\<close> the values \<^verbatim>\<open>y\<close> and
  \<^verbatim>\<open>yes\<close> set the flag, \<^verbatim>\<open>n\<close> and \<^verbatim>\<open>no\<close> clear it, and any other string
  makes \<^verbatim>\<open>opt_parse_y_n\<close>, and with it \<^verbatim>\<open>parse_config\<close>, return an error.
\<close>

theorem y_n_keys:
  "(opt_parse_y_n ''y'' f = (0, 1) \<and> opt_parse_y_n ''yes'' f = (0, 1)
      \<and> opt_parse_y_n ''n'' f = (0, 0) \<and> opt_parse_y_n ''no'' f = (0, 0))
   \<and> (v \<notin> {''y'', ''yes'', ''n'', ''no''} \<longrightarrow> fst (opt_parse_y_n v f) \<noteq> 0)
   \<and> (lub_ini_parse_file W fname = Some ini
        \<and> (lub_ini_find ini ''ht'' = Some v \<or> lub_ini_find ini ''non-local-cpus'' = Some v)
        \<and> v \<notin> {''y'', ''yes'', ''n'', ''no''}
        \<longrightarrow> fst (parse_config L W fname opts) \<noteq> 0)
   \<and> (lub_ini_parse_file W fname = Some ini \<and> fst (parse_config L W fname opts) = 0
        \<longrightarrow> (\<forall>u. lub_ini_find ini ''ht'' = Some u \<longrightarrow>
                ht (snd (parse_config L W fname opts)) = (if u = ''y'' \<or> u = ''yes'' then 1 else 0))
          \<and> (\<forall>u. lub_ini_find ini ''non-local-cpus'' = Some u \<longrightarrow>
                non_local_cpus (snd (parse_config L W fname opts)) = (if u = ''y'' \<or> u = ''yes'' then 1 else 0)))"
proof (intro conjI impI allI)
  show "opt_parse_y_n ''y'' f = (0, 1)" "opt_parse_y_n ''yes'' f = (0, 1)"
    "opt_parse_y_n ''n'' f = (0, 0)" "opt_parse_y_n ''no'' f = (0, 0)"
    by (simp_all add: opt_parse_y_n_def)
next
  assume "v \<notin> {''y'', ''yes'', ''n'', ''no''}"
  then show "fst (opt_parse_y_n v f) \<noteq> 0"
    by (simp add: opt_parse_y_n_def)
next
  assume a: "lub_ini_parse_file W fname = Some ini
        \<and> (lub_ini_find ini ''ht'' = Some v \<or> lub_ini_find ini ''non-local-cpus'' = Some v)
        \<and> v \<notin> {''y'', ''yes'', ''n'', ''no''}"
  then have "\<not> ini_ok L ini"
    by (auto simp add: ini_ok_def key_ok_def y_n_ok_def)
  with a show "fst (parse_config L W fname opts) \<noteq> 0"
    by (simp add: parse_config_fails)
next
  fix u
  assume a: "lub_ini_parse_file W fname = Some ini \<and> fst (parse_config L W fname opts) = 0"
    and u: "lub_ini_find ini ''ht'' = Some u"
  show "ht (snd (parse_config L W fname opts)) = (if u = ''y'' \<or> u = ''yes'' then 1 else 0)"
    using parse_config_ok(8) [of W fname ini L opts] a u by simp
next
  fix u
  assume a: "lub_ini_parse_file W fname = Some ini \<and> fst (parse_config L W fname opts) = 0"
    and u: "lub_ini_find ini ''non-local-cpus'' = Some u"
  show "non_local_cpus (snd (parse_config L W fname opts)) = (if u = ''y'' \<or> u = ''yes'' then 1 else 0)"
    using parse_config_ok(9) [of W fname ini L opts] a u by simp
qed

theorem y_n_keys_witness:
  "''maybe'' \<notin> {''y'', ''yes'', ''n'', ''no''}
   \<and> fst (opt_parse_y_n ''maybe'' 1) \<noteq> 0
   \<and> fst (parse_config sample_lib (one_file ''f'' (Some (Some [''ht'' \<mapsto> ''maybe'']))) ''f'' tuned_opts) \<noteq> 0
   \<and> fst (parse_config sample_lib
        (one_file ''f'' (Some (Some [''ht'' \<mapsto> ''no'', ''non-local-cpus'' \<mapsto> ''yes'']))) ''f'' zero_heap) = 0
   \<and> ht (snd (parse_config sample_lib
        (one_file ''f'' (Some (Some [''ht'' \<mapsto> ''no'', ''non-local-cpus'' \<mapsto> ''yes'']))) ''f'' zero_heap)) = 0
   \<and> non_local_cpus (snd (parse_config sample_lib
        (one_file ''f'' (Some (Some [''ht'' \<mapsto> ''no'', ''non-local-cpus'' \<mapsto> ''yes'']))) ''f'' zero_heap)) = 1"
proof -
  let ?W1 = "one_file ''f'' (Some (Some [''ht'' \<mapsto> ''maybe'']))"
  let ?i2 = "[''ht'' \<mapsto> ''no'', ''non-local-cpus'' \<mapsto> ''yes'']"
  let ?W2 = "one_file ''f'' (Some (Some ?i2))"
  have ok: "fst (parse_config sample_lib ?W2 ''f'' zero_heap) = 0"
    by (simp add: fst_parse_config one_file_simps ini_ok_def key_ok_def lub_ini_find_def y_n_ok_def)
  show ?thesis
    using y_n_keys [of 1 "''maybe''" ?W1 "''f''" "[''ht'' \<mapsto> ''maybe'']" sample_lib tuned_opts]
      y_n_keys [of 1 "''maybe''" ?W2 "''f''" ?i2 sample_lib zero_heap] ok
    by (simp add: one_file_simps lub_ini_find_def)
qed

subsection \<open>The exclusion mask\<close>

text \<open>
  Claim C2. After every successful \<^verbatim>\<open>parse_config\<close> the exclusion mask is the union
  of the parsed \<^verbatim>\<open>exclude-cpus\<close> mask (empty when the key is absent) and the
  complement of the \<^verbatim>\<open>use-cpus\<close> mask (all ones when the key is absent), bit by bit.
\<close>

theorem effective_exclude_mask:
  assumes "lub_ini_parse_file W fname = Some ini"
    and "fst (parse_config L W fname opts) = 0"
  shows "exclude_cpus (snd (parse_config L W fname opts)) =
           cpus_or (case lub_ini_find ini ''exclude-cpus'' of
                      None \<Rightarrow> cpus_clear | Some s \<Rightarrow> snd (cpumask_parse_user L s))
                   (cpus_complement (case lub_ini_find ini ''use-cpus'' of
                      None \<Rightarrow> cpus_setall | Some s \<Rightarrow> snd (cpumask_parse_user L s)))
         \<and> (\<forall>i < LENGTH('n::len).
               bit (exclude_cpus (snd (parse_config L W fname opts)) :: 'n cpumask_t) i \<longleftrightarrow>
                 bit (case lub_ini_find ini ''exclude-cpus'' of
                        None \<Rightarrow> 0 | Some s \<Rightarrow> snd (cpumask_parse_user L s)) i
                 \<or> \<not> bit (case lub_ini_find ini ''use-cpus'' of
                        None \<Rightarrow> - 1 | Some s \<Rightarrow> snd (cpumask_parse_user L s)) i)"
proof -
  have e: "exclude_cpus (snd (parse_config L W fname opts)) =
           (case lub_ini_find ini ''exclude-cpus'' of None \<Rightarrow> 0 | Some s \<Rightarrow> snd (cpumask_parse_user L s))
           OR NOT (case lub_ini_find ini ''use-cpus'' of None \<Rightarrow> - 1 | Some s \<Rightarrow> snd (cpumask_parse_user L s))"
    using assms by (rule parse_config_ok(7))
  have "exclude_cpus (snd (parse_config L W fname opts)) =
           cpus_or (case lub_ini_find ini ''exclude-cpus'' of
                      None \<Rightarrow> cpus_clear | Some s \<Rightarrow> snd (cpumask_parse_user L s))
                   (cpus_complement (case lub_ini_find ini ''use-cpus'' of
                      None \<Rightarrow> cpus_setall | Some s \<Rightarrow> snd (cpumask_parse_user L s)))"
    unfolding e
    by (cases "lub_ini_find ini ''exclude-cpus''"; cases "lub_ini_find ini ''use-cpus''")
       (simp_all add: cpus_or_def cpus_complement_def cpus_clear_def cpus_setall_def)
  moreover have "\<forall>i < LENGTH('n).
               bit (exclude_cpus (snd (parse_config L W fname opts))) i \<longleftrightarrow>
                 bit (case lub_ini_find ini ''exclude-cpus'' of
                        None \<Rightarrow> 0 | Some s \<Rightarrow> snd (cpumask_parse_user L s)) i
                 \<or> \<not> bit (case lub_ini_find ini ''use-cpus'' of
                        None \<Rightarrow> - 1 | Some s \<Rightarrow> snd (cpumask_parse_user L s)) i"
    unfolding e by (simp add: bit_or_iff bit_not_iff)
  ultimately show ?thesis by blast
qed

lemma hex_one: "hex_groups 0 0 0 [c] = hex_digit c" if "c \<noteq> CHR '',''"
  using that by (cases "hex_digit c") simp_all

theorem effective_exclude_mask_witness:
  "lub_ini_parse_file (one_file ''f'' (Some (Some [''exclude-cpus'' \<mapsto> ''3'', ''use-cpus'' \<mapsto> ''f''])))
       ''f'' = Some [''exclude-cpus'' \<mapsto> ''3'', ''use-cpus'' \<mapsto> ''f'']
   \<and> fst (parse_config sample_lib
        (one_file ''f'' (Some (Some [''exclude-cpus'' \<mapsto> ''3'', ''use-cpus'' \<mapsto> ''f'']))) ''f'' tuned_opts) = 0
   \<and> exclude_cpus (snd (parse_config sample_lib
        (one_file ''f'' (Some (Some [''exclude-cpus'' \<mapsto> ''3'', ''use-cpus'' \<mapsto> ''f'']))) ''f'' tuned_opts)) = 0xF3"
proof -
  let ?i = "[''exclude-cpus'' \<mapsto> ''3'', ''use-cpus'' \<mapsto> ''f'']"
  let ?W = "one_file ''f'' (Some (Some ?i))"
  have p3: "parse_kernel_hex ''3'' = (0, 3 :: 8 word)"
    by (simp add: parse_kernel_hex_def hex_one hex_digit_def)
  have pf: "parse_kernel_hex ''f'' = (0, 15 :: 8 word)"
    by (simp add: parse_kernel_hex_def hex_one hex_digit_def)
  have ini: "lub_ini_parse_file ?W ''f'' = Some ?i"
    by (simp add: one_file_simps)
  have ok: "fst (parse_config sample_lib ?W ''f'' tuned_opts) = 0"
    by (simp add: fst_parse_config one_file_simps ini_ok_def key_ok_def lub_ini_find_def
        mask_ok_def sample_lib_def p3 pf)
  have "exclude_cpus (snd (parse_config sample_lib ?W ''f'' tuned_opts)) = 0xF3"
    using effective_exclude_mask [OF ini ok, THEN conjunct1]
    by (simp add: lub_ini_find_def sample_lib_def p3 pf cpus_or_def cpus_complement_def)
  with ini ok show ?thesis by blast
qed

subsection \<open>Thresholds\<close>






subsection \<open>Intervals\<close>











subsection \<open>The tick\<close>

lemma free_balance_irqs_empty: "free_balance_irqs l = []"
  by (induction l rule: free_balance_irqs.induct) (subst free_balance_irqs.simps, simp)

lemma reread_config_no_stage: "filter is_stage (fst (reread_config L T opts)) = []"
  by (simp add: reread_config_def case_prod_unfold)

lemma reread_config_snd:
  "snd (reread_config L T opts) =
     (if sighup T \<and> access_R_OK T (cfgfile opts) then snd (parse_config L T (cfgfile opts) opts) else opts)"
  by (simp add: reread_config_def case_prod_unfold)

lemma reread_config_cli: "cli_part (snd (reread_config L T opts)) = cli_part opts"
  by (simp add: reread_config_snd parse_config_cli)

lemma tick_opts: "fst (snd (tick L T opts eng)) = snd (reread_config L T opts)"
  by (simp add: tick_def case_prod_unfold Let_def)

lemma tick_stages:
  "filter is_stage (fst (tick L T opts eng)) =
     [Reconfig_check, Scan_irqs, Link_irqs_to_cpus, Gather_statistics, Choose_irqs_to_move]
     @ (if queue_after_choose L T opts eng \<noteq> []
        then [Balance, Apply_affinity, Free_balance_irqs, Sleep (short_interval (snd (reread_config L T opts)))]
        else [Sleep (long_interval (snd (reread_config L T opts)))])"
  by (simp add: tick_def case_prod_unfold Let_def queue_after_choose_def reread_config_no_stage)

lemma tick_queue_cleared:
  "queue_after_choose L T opts eng \<noteq> [] \<Longrightarrow> balance_irqs (snd (snd (tick L T opts eng))) = []"
  by (simp add: tick_def case_prod_unfold Let_def queue_after_choose_def free_balance_irqs_empty)

lemma main_loop_Cons:
  "fst (main_loop L (T # Ts) opts eng) =
     fst (tick L T opts eng)
     @ fst (main_loop L Ts (fst (snd (tick L T opts eng))) (snd (snd (tick L T opts eng))))"
  by (simp add: case_prod_unfold)

lemma sample_tick_simps:
  "sighup (sample_tick h f c) = h"
  "access_R_OK (sample_tick h f c) p = (p = ''/etc/birq.conf'' \<and> f \<noteq> None)"
  "lub_ini_parse_file (sample_tick h (Some r) c) ''/etc/birq.conf'' = r"
  "scan_irqs (sample_tick h f c) e = e"
  "link_irqs_to_cpus (sample_tick h f c) e = e"
  "gather_statistics (sample_tick h f c) e = e"
  "choose_irqs_to_move (sample_tick h f c) t s x e = e\<lparr>balance_irqs := balance_irqs e @ c\<rparr>"
  "balance (sample_tick h f c) l x n e = e"
  "apply_affinity (sample_tick h f c) e = e"
  by (simp_all add: sample_tick_def one_file_def world.defs tick_world.defs)

lemma tick_engine:
  "snd (snd (tick L T opts eng)) =
     (let opts' = snd (reread_config L T opts);
          eng4 = choose_irqs_to_move T (threshold opts') (strategy opts') (exclude_cpus opts')
                   (gather_statistics T (link_irqs_to_cpus T (scan_irqs T eng)))
      in if balance_irqs eng4 \<noteq> []
         then (apply_affinity T
                 (balance T (load_limit opts') (exclude_cpus opts') (non_local_cpus opts') eng4))
               \<lparr>balance_irqs := []\<rparr>
         else eng4)"
  by (simp add: tick_def case_prod_unfold Let_def free_balance_irqs_empty)

lemma main_loop_Cons_state:
  "snd (main_loop L (T # Ts) opts eng) =
     snd (main_loop L Ts (fst (snd (tick L T opts eng))) (snd (snd (tick L T opts eng))))"
  by (simp add: case_prod_unfold)

lemma traced_tick_simps:
  "sighup (traced_tick c) = False"
  "scan_irqs (traced_tick c) e = e\<lparr>registry := registry e @ [''scan_irqs'']\<rparr>"
  "link_irqs_to_cpus (traced_tick c) e = e\<lparr>registry := registry e @ [''link_irqs_to_cpus'']\<rparr>"
  "gather_statistics (traced_tick c) e = e\<lparr>registry := registry e @ [''gather_statistics'']\<rparr>"
  "choose_irqs_to_move (traced_tick c) t s x e =
     e\<lparr>balance_irqs := balance_irqs e @ c, registry := registry e @ [''choose_irqs_to_move'']\<rparr>"
  "balance (traced_tick c) l x n e = e\<lparr>registry := registry e @ [''balance'']\<rparr>"
  "apply_affinity (traced_tick c) e = e\<lparr>registry := registry e @ [''apply_affinity'']\<rparr>"
  by (simp_all add: traced_tick_def one_file_def world.defs tick_world.defs)

text \<open>
  Claim C3. Every tick runs reconfig check, IRQ rescan, re-linking, statistics and
  selection in this order; then, exactly when the balance queue is not empty, placement,
  affinity write and the clearing of the queue, followed by a sleep of
  \<^verbatim>\<open>short_interval\<close>; otherwise the sleep lasts \<^verbatim>\<open>long_interval\<close>. The lists
  after the tick are what these stages, applied in this order with the options the
  reconfig check left, make of the lists before it; the loop is a sequence of such ticks.
\<close>

theorem tick_stage_order:
  "filter is_stage (fst (tick L T opts eng)) =
     [Reconfig_check, Scan_irqs, Link_irqs_to_cpus, Gather_statistics, Choose_irqs_to_move]
     @ (if queue_after_choose L T opts eng \<noteq> []
        then [Balance, Apply_affinity, Free_balance_irqs, Sleep (short_interval (fst (snd (tick L T opts eng))))]
        else [Sleep (long_interval (fst (snd (tick L T opts eng))))])
   \<and> (queue_after_choose L T opts eng \<noteq> [] \<longrightarrow> balance_irqs (snd (snd (tick L T opts eng))) = [])
   \<and> fst (main_loop L (T # Ts) opts eng) =
       fst (tick L T opts eng)
       @ fst (main_loop L Ts (fst (snd (tick L T opts eng))) (snd (snd (tick L T opts eng))))
   \<and> fst (snd (tick L T opts eng)) = snd (reread_config L T opts)
   \<and> snd (snd (tick L T opts eng)) =
       (let opts' = snd (reread_config L T opts);
            eng4 = choose_irqs_to_move T (threshold opts') (strategy opts') (exclude_cpus opts')
                     (gather_statistics T (link_irqs_to_cpus T (scan_irqs T eng)))
        in if balance_irqs eng4 \<noteq> []
           then (apply_affinity T
                   (balance T (load_limit opts') (exclude_cpus opts') (non_local_cpus opts') eng4))
                 \<lparr>balance_irqs := []\<rparr>
           else eng4)
   \<and> snd (main_loop L (T # Ts) opts eng) =
       snd (main_loop L Ts (fst (snd (tick L T opts eng))) (snd (snd (tick L T opts eng))))"
proof -
  have 1: "filter is_stage (fst (tick L T opts eng)) =
     [Reconfig_check, Scan_irqs, Link_irqs_to_cpus, Gather_statistics, Choose_irqs_to_move]
     @ (if queue_after_choose L T opts eng \<noteq> []
        then [Balance, Apply_affinity, Free_balance_irqs, Sleep (short_interval (fst (snd (tick L T opts eng))))]
        else [Sleep (long_interval (fst (snd (tick L T opts eng))))])"
    by (simp add: tick_stages tick_opts)
  have 2: "queue_after_choose L T opts eng \<noteq> [] \<longrightarrow> balance_irqs (snd (snd (tick L T opts eng))) = []"
    using tick_queue_cleared [of L T opts eng] by blast
  from 1 2 main_loop_Cons [of L T Ts opts eng] tick_opts [of L T opts eng]
    tick_engine [of L T opts eng] main_loop_Cons_state [of L T Ts opts eng]
  show ?thesis
    by blast
qed

theorem tick_stage_order_witness:
  "queue_after_choose sample_lib (sample_tick False None [24]) tuned_opts \<lparr>balance_irqs = [], registry = ()\<rparr> \<noteq> []
   \<and> filter is_stage (fst (tick sample_lib (sample_tick False None [24]) tuned_opts \<lparr>balance_irqs = [], registry = ()\<rparr>)) =
       [Reconfig_check, Scan_irqs, Link_irqs_to_cpus, Gather_statistics, Choose_irqs_to_move,
        Balance, Apply_affinity, Free_balance_irqs, Sleep 10]
   \<and> balance_irqs (snd (snd (tick sample_lib (sample_tick False None [24]) tuned_opts \<lparr>balance_irqs = [], registry = ()\<rparr>))) = []
   \<and> filter is_stage (fst (tick sample_lib (sample_tick False None []) tuned_opts \<lparr>balance_irqs = [], registry = ()\<rparr>)) =
       [Reconfig_check, Scan_irqs, Link_irqs_to_cpus, Gather_statistics, Choose_irqs_to_move, Sleep 30]
   \<and> snd (snd (tick sample_lib (traced_tick [24]) tuned_opts \<lparr>balance_irqs = [], registry = []\<rparr>)) =
       \<lparr>balance_irqs = [],
        registry = [''scan_irqs'', ''link_irqs_to_cpus'', ''gather_statistics'',
                    ''choose_irqs_to_move'', ''balance'', ''apply_affinity'']\<rparr>
   \<and> snd (snd (tick sample_lib (traced_tick []) tuned_opts \<lparr>balance_irqs = [], registry = []\<rparr>)) =
       \<lparr>balance_irqs = [],
        registry = [''scan_irqs'', ''link_irqs_to_cpus'', ''gather_statistics'',
                    ''choose_irqs_to_move'']\<rparr>"
proof -
  let ?e = "\<lparr>balance_irqs = [] :: nat list, registry = ()\<rparr>"
  let ?r = "\<lparr>balance_irqs = [] :: nat list, registry = [] :: string list\<rparr>"
  have o: "snd (reread_config sample_lib (sample_tick False None c) tuned_opts) = tuned_opts" for c
    by (simp add: reread_config_snd sample_tick_simps)
  have q: "queue_after_choose sample_lib (sample_tick False None c) tuned_opts ?e = c" for c
    by (simp add: queue_after_choose_def o sample_tick_simps)
  have t: "fst (snd (tick sample_lib (sample_tick False None c) tuned_opts ?e)) = tuned_opts" for c
    by (simp add: tick_opts o)
  have s: "short_interval tuned_opts = 10" "long_interval tuned_opts = 30"
    by (simp_all add: tuned_opts_def)
  note a = tick_stage_order [of sample_lib "sample_tick False None [24]" tuned_opts ?e "[]"]
  note b = tick_stage_order [of sample_lib "sample_tick False None []" tuned_opts ?e "[]"]
  have 1: "queue_after_choose sample_lib (sample_tick False None [24]) tuned_opts ?e \<noteq> []"
    by (simp add: q)
  have 2: "filter is_stage (fst (tick sample_lib (sample_tick False None [24]) tuned_opts ?e)) =
       [Reconfig_check, Scan_irqs, Link_irqs_to_cpus, Gather_statistics, Choose_irqs_to_move,
        Balance, Apply_affinity, Free_balance_irqs, Sleep 10]"
    using a [THEN conjunct1] by (simp only: q t s) simp
  have 3: "balance_irqs (snd (snd (tick sample_lib (sample_tick False None [24]) tuned_opts ?e))) = []"
    using a [THEN conjunct2, THEN conjunct1] 1 by blast
  have 4: "filter is_stage (fst (tick sample_lib (sample_tick False None []) tuned_opts ?e)) =
       [Reconfig_check, Scan_irqs, Link_irqs_to_cpus, Gather_statistics, Choose_irqs_to_move, Sleep 30]"
    using b [THEN conjunct1] by (simp only: q t s) simp
  have o': "snd (reread_config sample_lib (traced_tick c) tuned_opts) = tuned_opts" for c
    by (simp add: reread_config_snd traced_tick_simps)
  have 5: "snd (snd (tick sample_lib (traced_tick [24]) tuned_opts ?r)) =
       \<lparr>balance_irqs = [],
        registry = [''scan_irqs'', ''link_irqs_to_cpus'', ''gather_statistics'',
                    ''choose_irqs_to_move'', ''balance'', ''apply_affinity'']\<rparr>"
    using tick_stage_order [of sample_lib "traced_tick [24]" tuned_opts ?r "[]",
        THEN conjunct2, THEN conjunct2, THEN conjunct2, THEN conjunct2, THEN conjunct1]
    by (simp add: o' traced_tick_simps Let_def)
  have 6: "snd (snd (tick sample_lib (traced_tick []) tuned_opts ?r)) =
       \<lparr>balance_irqs = [],
        registry = [''scan_irqs'', ''link_irqs_to_cpus'', ''gather_statistics'',
                    ''choose_irqs_to_move'']\<rparr>"
    using tick_stage_order [of sample_lib "traced_tick []" tuned_opts ?r "[]",
        THEN conjunct2, THEN conjunct2, THEN conjunct2, THEN conjunct2, THEN conjunct1]
    by (simp add: o' traced_tick_simps Let_def)
  from 1 2 3 4 5 6 show ?thesis by blast
qed

subsection \<open>A failed re-read\<close>

text \<open>
  Claim C1, as stated, fails: after a SIGHUP with a config file that cannot be loaded
  the daemon runs on, but with every config file option back at its default instead of
  the previously active values; and with a file whose \<^verbatim>\<open>threshold\<close> is rejected,
  the \<^verbatim>\<open>strategy\<close> read before it is already in force and the rest is back at the
  defaults.
\<close>

theorem reconfig_failure_loses_config:
  "fst (parse_config sample_lib (sample_tick True (Some None) []) ''/etc/birq.conf'' tuned_opts) \<noteq> 0
   \<and> snd (reread_config sample_lib (sample_tick True (Some None) []) tuned_opts)
       = opts_default_config sample_lib tuned_opts
   \<and> cfg_part (snd (reread_config sample_lib (sample_tick True (Some None) []) tuned_opts))
       = (BIRQ_CHOOSE_RND, Finite 99, Finite 99, 2, 5, 0, 1, 0)
   \<and> cfg_part tuned_opts = (BIRQ_CHOOSE_MAX, Finite 80, Finite 70, 10, 30, 3, 0, 1)
   \<and> reread_config sample_lib
         (sample_tick True (Some (Some [''strategy'' \<mapsto> ''min'', ''threshold'' \<mapsto> ''200''])) []) tuned_opts
       = ([Syslog ''Re-reading config file'', Reread_config ''/etc/birq.conf'',
           Syslog ''Error while config file parsing.''],
          (opts_default_config sample_lib tuned_opts)\<lparr>strategy := BIRQ_CHOOSE_MIN\<rparr>)"
proof -
  let ?T = "sample_tick True (Some None) []"
  let ?T2 = "sample_tick True (Some (Some [''strategy'' \<mapsto> ''min'', ''threshold'' \<mapsto> ''200''])) []"
  have c0: "cfgfile tuned_opts = ''/etc/birq.conf''"
    by (simp add: tuned_opts_def)
  have s200: "strtof_plain ''200'' = (Finite 200, 3)"
    by (simp add: strtof_plain_def isspace_def isdigit_def Let_def)
  have s: "strtof sample_lib = strtof_plain"
    by (simp add: sample_lib_def)
  have p2: "parse_config sample_lib ?T2 ''/etc/birq.conf'' tuned_opts
      = (- 1, (opts_default_config sample_lib tuned_opts)\<lparr>strategy := BIRQ_CHOOSE_MIN\<rparr>)"
    by (simp add: parse_config_def sample_tick_simps and_then_def cfg_strategy_def cfg_threshold_def
        lub_ini_find_def opt_parse_strategy_def opt_parse_threshold_def s s200)
  have r2: "reread_config sample_lib ?T2 tuned_opts
       = ([Syslog ''Re-reading config file'', Reread_config ''/etc/birq.conf'',
           Syslog ''Error while config file parsing.''],
          (opts_default_config sample_lib tuned_opts)\<lparr>strategy := BIRQ_CHOOSE_MIN\<rparr>)"
    using p2 by (simp add: reread_config_def sample_tick_simps c0)
  have p: "parse_config sample_lib ?T ''/etc/birq.conf'' tuned_opts
      = (- 1, opts_default_config sample_lib tuned_opts)"
    by (simp add: parse_config_None sample_tick_simps)
  have c: "cfgfile tuned_opts = ''/etc/birq.conf''"
    by (simp add: tuned_opts_def)
  have r: "snd (reread_config sample_lib ?T tuned_opts) = opts_default_config sample_lib tuned_opts"
    by (simp add: reread_config_snd sample_tick_simps c p)
  have d: "cfg_part (opts_default_config sample_lib tuned_opts)
      = (BIRQ_CHOOSE_RND, Finite 99, Finite 99, 2, 5, 0, 1, 0)"
    by (simp add: cfg_part_def opts_default_config_def sample_lib_def cpus_clear_def)
  have t: "cfg_part tuned_opts = (BIRQ_CHOOSE_MAX, Finite 80, Finite 70, 10, 30, 3, 0, 1)"
    by (simp add: cfg_part_def tuned_opts_def)
  from p r d t r2 show ?thesis by simp
qed

text \<open>
  Claim C1, amended. If re-parsing the config file after a reconfig request fails, the
  daemon continues running: the tick goes through its stages to the sleep and the loop
  goes on with the next tick. The command line options are unchanged. The config file
  options are not retained: they are what \<^verbatim>\<open>parse_config\<close> left when it failed,
  which does not depend on the previously active configuration and is the defaults
  when the file cannot be loaded.
\<close>

theorem reconfig_failure_keeps_running:
  assumes "sighup T" and "access_R_OK T (cfgfile opts)"
    and "fst (parse_config L T (cfgfile opts) opts) \<noteq> 0"
  shows "snd (reread_config L T opts) = snd (parse_config L T (cfgfile opts) opts)
    \<and> cli_part (snd (reread_config L T opts)) = cli_part opts
    \<and> (\<forall>opts2. cli_part opts2 = cli_part opts \<longrightarrow>
          snd (reread_config L T opts2) = snd (reread_config L T opts))
    \<and> (lub_ini_parse_file T (cfgfile opts) = None \<longrightarrow>
          snd (reread_config L T opts) = opts_default_config L opts)
    \<and> filter is_stage (fst (tick L T opts eng)) =
         [Reconfig_check, Scan_irqs, Link_irqs_to_cpus, Gather_statistics, Choose_irqs_to_move]
         @ (if queue_after_choose L T opts eng \<noteq> []
            then [Balance, Apply_affinity, Free_balance_irqs,
                  Sleep (short_interval (snd (parse_config L T (cfgfile opts) opts)))]
            else [Sleep (long_interval (snd (parse_config L T (cfgfile opts) opts)))])
    \<and> fst (main_loop L (T # Ts) opts eng) =
         fst (tick L T opts eng)
         @ fst (main_loop L Ts (snd (parse_config L T (cfgfile opts) opts)) (snd (snd (tick L T opts eng))))"
proof -
  have r: "snd (reread_config L T opts) = snd (parse_config L T (cfgfile opts) opts)"
    using assms by (simp add: reread_config_snd)
  have indep: "snd (reread_config L T opts2) = snd (reread_config L T opts)"
    if "cli_part opts2 = cli_part opts" for opts2
  proof -
    from that have "cfgfile opts2 = cfgfile opts"
      by (simp add: cli_part_def)
    moreover from that have "parse_config L T (cfgfile opts) opts2 = parse_config L T (cfgfile opts) opts"
      by (rule parse_config_indep)
    ultimately show ?thesis
      using assms by (simp add: reread_config_snd)
  qed
  have dflt: "snd (reread_config L T opts) = opts_default_config L opts"
    if "lub_ini_parse_file T (cfgfile opts) = None"
    using that by (simp add: r parse_config_None)
  have st: "filter is_stage (fst (tick L T opts eng)) =
         [Reconfig_check, Scan_irqs, Link_irqs_to_cpus, Gather_statistics, Choose_irqs_to_move]
         @ (if queue_after_choose L T opts eng \<noteq> []
            then [Balance, Apply_affinity, Free_balance_irqs,
                  Sleep (short_interval (snd (parse_config L T (cfgfile opts) opts)))]
            else [Sleep (long_interval (snd (parse_config L T (cfgfile opts) opts)))])"
    by (simp only: tick_stages r)
  have ml: "fst (main_loop L (T # Ts) opts eng) =
         fst (tick L T opts eng)
         @ fst (main_loop L Ts (snd (parse_config L T (cfgfile opts) opts)) (snd (snd (tick L T opts eng))))"
    by (simp only: main_loop_Cons tick_opts r)
  from r reread_config_cli [of L T opts] indep dflt st ml show ?thesis
    by blast
qed

theorem reconfig_failure_keeps_running_witness:
  "sighup (sample_tick True (Some None) [])
   \<and> access_R_OK (sample_tick True (Some None) []) (cfgfile tuned_opts)
   \<and> fst (parse_config sample_lib (sample_tick True (Some None) []) (cfgfile tuned_opts) tuned_opts) \<noteq> 0
   \<and> cli_part (snd (reread_config sample_lib (sample_tick True (Some None) []) tuned_opts)) = cli_part tuned_opts
   \<and> snd (reread_config sample_lib (sample_tick True (Some None) []) tuned_opts)
       = opts_default_config sample_lib tuned_opts
   \<and> filter is_stage (fst (tick sample_lib (sample_tick True (Some None) []) tuned_opts
         \<lparr>balance_irqs = [], registry = ()\<rparr>)) =
       [Reconfig_check, Scan_irqs, Link_irqs_to_cpus, Gather_statistics, Choose_irqs_to_move, Sleep 5]"
proof -
  let ?T = "sample_tick True (Some None) []"
  let ?e = "\<lparr>balance_irqs = [] :: nat list, registry = ()\<rparr>"
  have c: "cfgfile tuned_opts = ''/etc/birq.conf''"
    by (simp add: tuned_opts_def)
  have h: "sighup ?T"
    by (simp add: sample_tick_simps)
  have a: "access_R_OK ?T (cfgfile tuned_opts)"
    by (simp add: sample_tick_simps c)
  have n: "lub_ini_parse_file ?T (cfgfile tuned_opts) = None"
    by (simp add: sample_tick_simps c)
  have p: "parse_config sample_lib ?T (cfgfile tuned_opts) tuned_opts
      = (- 1, opts_default_config sample_lib tuned_opts)"
    using n by (rule parse_config_None)
  then have f: "fst (parse_config sample_lib ?T (cfgfile tuned_opts) tuned_opts) \<noteq> 0"
    by simp
  have q: "queue_after_choose sample_lib ?T tuned_opts ?e = []"
    by (simp add: queue_after_choose_def sample_tick_simps)
  have l: "long_interval (opts_default_config sample_lib tuned_opts) = 5"
    by (simp add: opts_default_config_def sample_lib_def)
  note th = reconfig_failure_keeps_running [OF h a f, of ?e "[]"]
  from th have 1: "cli_part (snd (reread_config sample_lib ?T tuned_opts)) = cli_part tuned_opts"
    by blast
  from th n have 2: "snd (reread_config sample_lib ?T tuned_opts) = opts_default_config sample_lib tuned_opts"
    by blast
  from th have "filter is_stage (fst (tick sample_lib ?T tuned_opts ?e)) =
         [Reconfig_check, Scan_irqs, Link_irqs_to_cpus, Gather_statistics, Choose_irqs_to_move]
         @ (if queue_after_choose sample_lib ?T tuned_opts ?e \<noteq> []
            then [Balance, Apply_affinity, Free_balance_irqs,
                  Sleep (short_interval (snd (parse_config sample_lib ?T (cfgfile tuned_opts) tuned_opts)))]
            else [Sleep (long_interval (snd (parse_config sample_lib ?T (cfgfile tuned_opts) tuned_opts)))])"
    by blast
  then have 3: "filter is_stage (fst (tick sample_lib ?T tuned_opts ?e)) =
       [Reconfig_check, Scan_irqs, Link_irqs_to_cpus, Gather_statistics, Choose_irqs_to_move, Sleep 5]"
    by (simp add: q p l)
  from h a f 1 2 3 show ?thesis by blast
qed

subsection \<open>The command line and the defaults\<close>

lemma opts_parse_loop_cfg:
  "opts_parse_loop L rs opts = Returned opts' \<Longrightarrow> cfg_part opts' = cfg_part opts"
proof (induction rs arbitrary: opts)
  case Nil
  then show ?case by simp
next
  case (Cons r rs)
  obtain c a where r: "r = (c, a)" by (cases r)
  from Cons.prems show ?case
    unfolding r
    by (auto simp add: cfg_part_def split: if_splits option.splits dest!: Cons.IH)
qed

lemma opts_parse_cfg:
  "opts_parse L argv opts = Returned (rc, opts') \<Longrightarrow> cfg_part opts' = cfg_part opts"
  by (auto simp add: opts_parse_def split: proc.splits dest: opts_parse_loop_cfg)

text \<open>The switch sets \<^verbatim>\<open>debug\<close> exactly for a \<^verbatim>\<open>d\<close>, marks the config file as
  named by the user exactly for a \<^verbatim>\<open>c\<close>, and keeps the argument of the last one.\<close>

lemma opts_parse_loop_flags:
  "opts_parse_loop L rs opts = Returned opts' \<Longrightarrow>
     debug opts' = (if CHR ''d'' \<in> fst ` set rs then 1 else debug opts)
     \<and> cfgfile_userdefined opts' = (if CHR ''c'' \<in> fst ` set rs then 1 else cfgfile_userdefined opts)
     \<and> cfgfile opts' = last (cfgfile opts # map snd (filter (\<lambda>r. fst r = CHR ''c'') rs))"
proof (induction rs arbitrary: opts)
  case Nil
  then show ?case by simp
next
  case (Cons r rs)
  obtain c a where r: "r = (c, a)" by (cases r)
  note IH = Cons.IH
  from Cons.prems have p: "opts_parse_loop L ((c, a) # rs) opts = Returned opts'"
    by (simp add: r)
  consider (p) "c = CHR ''p''" | (c) "c = CHR ''c''" | (x) "c = CHR ''x''" | (d) "c = CHR ''d''"
    | (v) "c = CHR ''v''" | (O) "c = CHR ''O''"
    | (other) "c \<noteq> CHR ''p''" "c \<noteq> CHR ''c''" "c \<noteq> CHR ''x''" "c \<noteq> CHR ''d''" "c \<noteq> CHR ''v''" "c \<noteq> CHR ''O''"
    by blast
  then show ?case
  proof cases
    case p
    with \<open>opts_parse_loop L ((c, a) # rs) opts = Returned opts'\<close>
    have "opts_parse_loop L rs (opts\<lparr>pidfile := a\<rparr>) = Returned opts'" by simp
    from IH [OF this] show ?thesis by (simp add: r p)
  next
    case c
    with p have "opts_parse_loop L rs (opts\<lparr>cfgfile := a, cfgfile_userdefined := 1\<rparr>) = Returned opts'" by simp
    from IH [OF this] show ?thesis by (simp add: r c)
  next
    case x
    with p have "opts_parse_loop L rs (opts\<lparr>pxm := Some a\<rparr>) = Returned opts'" by simp
    from IH [OF this] show ?thesis by (simp add: r x)
  next
    case d
    with p have "opts_parse_loop L rs (opts\<lparr>debug := 1\<rparr>) = Returned opts'" by simp
    from IH [OF this] show ?thesis by (simp add: r d)
  next
    case v
    with p have "opts_parse_loop L rs (opts\<lparr>verbose := 1\<rparr>) = Returned opts'" by simp
    from IH [OF this] show ?thesis by (simp add: r v)
  next
    case O
    with p obtain f where "opts_parse_loop L rs (opts\<lparr>log_facility := f\<rparr>) = Returned opts'"
      by (cases "lub_log_facility L a") simp_all
    from IH [OF this] show ?thesis by (simp add: r O)
  next
    case other
    with p have False by (simp split: if_splits)
    then show ?thesis ..
  qed
qed


lemma opts_parse_flags:
  assumes "opts_parse L argv (opts_init L heap) = Returned (rc, opts)"
  shows "debug opts = (if CHR ''d'' \<in> fst ` set (getopt_returns L argv) then 1 else 0)
    \<and> cfgfile_userdefined opts = (if CHR ''c'' \<in> fst ` set (getopt_returns L argv) then 1 else 0)
    \<and> cfgfile opts = last (BIRQ_CFGFILE L # map snd (filter (\<lambda>r. fst r = CHR ''c'') (getopt_returns L argv)))"
proof -
  from assms have "opts_parse_loop L (getopt_returns L argv) (opts_init L heap) = Returned opts"
    by (cases "opts_parse_loop L (getopt_returns L argv) (opts_init L heap)")
       (simp_all add: opts_parse_def getopt_returns_def)
  from opts_parse_loop_flags [OF this] show ?thesis
    by (simp add: opts_init_def)
qed

lemma getopt_scan_prefix:
  "list_all (self_contained lng) pre \<Longrightarrow>
   getopt_scan lng shortopts longopts None (pre @ rest) =
     getopt_scan lng shortopts longopts None pre @ getopt_scan lng shortopts longopts None rest"
proof (induction pre)
  case Nil
  then show ?case by simp
next
  case (Cons a pre)
  then have IH: "getopt_scan lng shortopts longopts None (pre @ rest) =
     getopt_scan lng shortopts longopts None pre @ getopt_scan lng shortopts longopts None rest"
    and a: "a \<noteq> ''--''" and w: "leaves_waiting lng a = None"
    by (simp_all add: self_contained_def)
  show ?case
  proof (cases "lng \<and> take 2 a = ''--''")
    case True
    with w have "snd (getopt_longarg longopts (drop 2 a)) = None"
      by (auto simp add: leaves_waiting_def split: if_splits)
    with True a IH show ?thesis by auto
  next
    case False
    show ?thesis
    proof (cases "take 1 a = ''-'' \<and> a \<noteq> ''-''")
      case True
      with False w have "snd (getopt_cluster shortopts (drop 1 a)) = None"
        by (auto simp add: leaves_waiting_def split: if_splits)
      with True False a IH show ?thesis by auto
    next
      case f: False
      with False a IH show ?thesis by auto
    qed
  qed
qed

lemma getopt_scan_d:
  "getopt_scan lng shortopts longopts None (''-d'' # rest) =
     (CHR ''d'', []) # getopt_scan lng shortopts longopts None rest"
  by (simp add: shortopts_def)

lemma getopt_scan_debug:
  "getopt_scan True shortopts longopts None (''--debug'' # rest) =
     (CHR ''d'', []) # getopt_scan True shortopts longopts None rest"
  by (simp add: longopts_def getopt_longarg_def find_longopt_def)

lemma getopt_scan_c:
  "getopt_scan lng shortopts longopts None (''-c'' # f # rest) =
     (CHR ''c'', f) # getopt_scan lng shortopts longopts None rest"
  by (simp add: shortopts_def)


lemma getopt_returns_d:
  assumes "list_all (self_contained (HAVE_GETOPT_H L)) pre"
    and "d = ''-d'' \<or> HAVE_GETOPT_H L \<and> d = ''--debug''"
  shows "CHR ''d'' \<in> fst ` set (getopt_returns L (argv0 # pre @ d # rest))"
proof -
  have "getopt_scan (HAVE_GETOPT_H L) shortopts longopts None (d # rest) =
      (CHR ''d'', []) # getopt_scan (HAVE_GETOPT_H L) shortopts longopts None rest"
    using assms(2) getopt_scan_d [of "HAVE_GETOPT_H L" rest] getopt_scan_debug [of rest]
    by auto
  then have "(CHR ''d'', []) \<in> set (getopt_returns L (argv0 # pre @ d # rest))"
    by (simp add: getopt_returns_def getopt_scan_prefix [OF assms(1)])
  then show ?thesis
    by force
qed

lemma getopt_returns_c:
  assumes "list_all (self_contained (HAVE_GETOPT_H L)) pre"
  shows "(CHR ''c'', f) \<in> set (getopt_returns L (argv0 # pre @ ''-c'' # f # rest))"
proof -
  have "getopt_returns L (argv0 # pre @ ''-c'' # f # rest) =
      getopt_scan (HAVE_GETOPT_H L) shortopts longopts None pre
      @ (CHR ''c'', f) # getopt_scan (HAVE_GETOPT_H L) shortopts longopts None rest"
    by (simp only: getopt_returns_def drop_Suc_Cons drop_0 One_nat_def
        getopt_scan_prefix [OF assms] getopt_scan_c)
  then show ?thesis
    by simp
qed

lemma opts_parse_loop_unknown: "opts_parse_loop L ((CHR ''?'', a) # rs) opts = Exited (- 1)"
  by simp

lemma getopt_scan_r:
  "getopt_scan lng shortopts longopts None (''-r'' # rest) = (CHR ''?'', []) # getopt_scan lng shortopts longopts None rest"
  by (simp add: shortopts_def)

lemma getopt_scan_ht:
  "\<exists>rs. getopt_scan lng shortopts longopts None (''--ht'' # rest) = (CHR ''?'', []) # rs"
  by (cases lng) (simp_all add: shortopts_def longopts_def getopt_longarg_def find_longopt_def)

lemma opts_parse_r: "opts_parse L (argv0 # ''-r'' # rest) opts = Exited (- 1)"
  by (simp only: opts_parse_def drop_Suc_Cons drop_0 One_nat_def getopt_scan_r opts_parse_loop_unknown proc.case)

lemma opts_parse_ht: "opts_parse L (argv0 # ''--ht'' # rest) opts = Exited (- 1)"
proof -
  obtain rs where "getopt_scan (HAVE_GETOPT_H L) shortopts longopts None (''--ht'' # rest) = (CHR ''?'', []) # rs"
    using getopt_scan_ht by blast
  then show ?thesis
    by (simp only: opts_parse_def drop_Suc_Cons drop_0 One_nat_def opts_parse_loop_unknown proc.case)
qed

text \<open>
  Claim C8, as stated, fails: the obsolete option \<^verbatim>\<open>-r\<close>, \<^verbatim>\<open>--ht\<close> is not in the
  option tables, so getopt reports it as unknown and \<^verbatim>\<open>opts_parse\<close> leaves through
  the usage error with \<^verbatim>\<open>exit(-1)\<close>.
\<close>

theorem ht_option_is_usage_error:
  "opts_parse sample_lib [''birq'', ''-r''] (opts_init sample_lib zero_heap) = Exited (- 1)
   \<and> opts_parse sample_lib [''birq'', ''--ht''] (opts_init sample_lib zero_heap) = Exited (- 1)
   \<and> exit_status (- 1) = 255"
  by (simp add: opts_parse_r opts_parse_ht exit_status_def)

text \<open>
  Claim C8, amended. The \<^verbatim>\<open>ht\<close> command line option is not accepted by argument
  parsing: \<^verbatim>\<open>-r\<close> or \<^verbatim>\<open>--ht\<close> as the first argument ends the process with the
  usage error, status \<^verbatim>\<open>-1\<close>. No command line changes \<^verbatim>\<open>ht\<close> or any other
  option of the config file; only the config file key \<^verbatim>\<open>ht\<close> affects behaviour.
\<close>

theorem ht_option_rejected:
  "opts_parse L (argv0 # ''-r'' # rest) opts = Exited (- 1)
   \<and> opts_parse L (argv0 # ''--ht'' # rest) opts = Exited (- 1)
   \<and> (opts_parse L argv opts = Returned (rc, opts') \<longrightarrow> ht opts' = ht opts \<and> cfg_part opts' = cfg_part opts)"
proof (intro conjI impI)
  show "opts_parse L (argv0 # ''-r'' # rest) opts = Exited (- 1)"
    by (rule opts_parse_r)
  show "opts_parse L (argv0 # ''--ht'' # rest) opts = Exited (- 1)"
    by (rule opts_parse_ht)
next
  assume "opts_parse L argv opts = Returned (rc, opts')"
  then have c: "cfg_part opts' = cfg_part opts"
    by (rule opts_parse_cfg)
  then show "ht opts' = ht opts"
    by (simp add: cfg_part_def)
  from c show "cfg_part opts' = cfg_part opts" .
qed

lemma opts_parse_d_v:
  "opts_parse L [argv0, ''-d'', ''-v''] opts = Returned (0, opts\<lparr>debug := 1, verbose := 1\<rparr>)"
  by (simp add: opts_parse_def shortopts_def)

theorem ht_option_rejected_witness:
  "opts_parse sample_lib [''birq'', ''-d'', ''-v''] tuned_opts = Returned (0, tuned_opts\<lparr>debug := 1, verbose := 1\<rparr>)
   \<and> ht (tuned_opts\<lparr>debug := 1, verbose := 1\<rparr>) = ht tuned_opts
   \<and> opts_parse sample_lib [''birq'', ''-r'', ''-d''] tuned_opts = Exited (- 1)"
proof -
  have p: "opts_parse sample_lib [''birq'', ''-d'', ''-v''] tuned_opts
      = Returned (0, tuned_opts\<lparr>debug := 1, verbose := 1\<rparr>)"
    by (rule opts_parse_d_v)
  then have "ht (tuned_opts\<lparr>debug := 1, verbose := 1\<rparr>) = ht tuned_opts
      \<and> cfg_part (tuned_opts\<lparr>debug := 1, verbose := 1\<rparr>) = cfg_part tuned_opts"
    by (rule ht_option_rejected [THEN conjunct2, THEN conjunct2, THEN mp])
  moreover have "opts_parse sample_lib [''birq'', ''-r'', ''-d''] tuned_opts = Exited (- 1)"
    by (rule ht_option_rejected [THEN conjunct1])
  ultimately show ?thesis
    using p by blast
qed

text \<open>Without a config file the options of the config file are never assigned: they
  keep the content of the allocation.\<close>

lemma startup_without_config:
  assumes "\<not> access_R_OK S (cfgfile opts)" and "cfgfile_userdefined opts = 0"
  shows "startup_config L S opts = (0, opts)"
  using assms by (simp add: startup_config_def)

lemma opts_init_unset:
  "strategy (opts_init L heap) = strategy heap" "threshold (opts_init L heap) = threshold heap"
  "load_limit (opts_init L heap) = load_limit heap" "short_interval (opts_init L heap) = short_interval heap"
  "long_interval (opts_init L heap) = long_interval heap" "ht (opts_init L heap) = ht heap"
  "non_local_cpus (opts_init L heap) = non_local_cpus heap"
  by (simp_all add: opts_init_def)

text \<open>In a config file that is parsed, an absent key leaves the default, which every
  parse sets anew before it reads the file.\<close>

lemma absent_keys_default:
  assumes "lub_ini_parse_file W fname = Some ini" and "fst (parse_config L W fname opts) = 0"
  shows "lub_ini_find ini ''strategy'' = None \<Longrightarrow> strategy (snd (parse_config L W fname opts)) = BIRQ_CHOOSE_RND"
    and "lub_ini_find ini ''ht'' = None \<Longrightarrow> ht (snd (parse_config L W fname opts)) = 1"
    and "lub_ini_find ini ''non-local-cpus'' = None \<Longrightarrow> non_local_cpus (snd (parse_config L W fname opts)) = 0"
    and "lub_ini_find ini ''exclude-cpus'' = None \<Longrightarrow> lub_ini_find ini ''use-cpus'' = None \<Longrightarrow>
           exclude_cpus (snd (parse_config L W fname opts)) = 0"
  using parse_config_ok(2,7,8,9) [OF assms] by simp_all

text \<open>
  Claim C7 holds for a config file that is parsed, but not before any file is parsed:
  started without a config file, \<^verbatim>\<open>main\<close> never calls \<^verbatim>\<open>opts_default_config\<close>,
  and with a zero-filled allocation it scans the CPUs with \<^verbatim>\<open>ht\<close> 0 and sleeps for
  0 seconds.
\<close>

theorem defaults_missing_without_config_file:
  "opts_parse sample_lib [''birq'', ''-d''] (opts_init sample_lib zero_heap)
       = Returned (0, (opts_init sample_lib zero_heap)\<lparr>debug := 1\<rparr>)
   \<and> startup_config sample_lib (sample_startup None 0 3) ((opts_init sample_lib zero_heap)\<lparr>debug := 1\<rparr>)
       = (0, (opts_init sample_lib zero_heap)\<lparr>debug := 1\<rparr>)
   \<and> cfg_part ((opts_init sample_lib zero_heap)\<lparr>debug := 1\<rparr>)
       = (BIRQ_CHOOSE_MAX, Finite 0, Finite 0, 0, 0, 0, 0, 0)
   \<and> main sample_lib (sample_startup None 0 3) [sample_tick False None []] zero_heap [''birq'', ''-d'']
       = ([Openlog, Syslog ''Start daemon.'', Srand, Scan_numas, Scan_cpus 0,
           Reconfig_check, Scan_irqs, Link_irqs_to_cpus, Gather_statistics, Show_statistics,
           Choose_irqs_to_move, Sleep 0, Free_data, Syslog ''Stop daemon.''], 0)"
proof -
  let ?o = "(opts_init sample_lib zero_heap)\<lparr>debug := 1\<rparr>"
  let ?S = "sample_startup None 0 3"
  have 1: "opts_parse sample_lib [''birq'', ''-d''] (opts_init sample_lib zero_heap) = Returned (0, ?o)"
    by (simp add: opts_parse_def shortopts_def)
  have c: "cfgfile ?o = ''/etc/birq.conf''" "cfgfile_userdefined ?o = 0"
    by (simp_all add: opts_init_def sample_lib_def)
  have acc: "\<not> access_R_OK ?S p" for p
    by (simp add: sample_startup_def one_file_def world.defs startup.defs)
  have 2: "startup_config sample_lib ?S ?o = (0, ?o)"
    using acc c(2) by (rule startup_without_config)
  have 3: "cfg_part ?o = (BIRQ_CHOOSE_MAX, Finite 0, Finite 0, 0, 0, 0, 0, 0)"
    by (simp add: cfg_part_def opts_init_def zero_heap_def sample_lib_def)
  have f: "debug ?o = 1" "verbose ?o = 0" "ht ?o = 0" "pxm ?o = None" "long_interval ?o = 0"
    by (simp_all add: opts_init_def zero_heap_def sample_lib_def)
  have d: "daemonize ?S ?o = ([], False, - 1)"
    by (simp add: daemonize_def f)
  have p: "prepare ?S ?o = ([Srand, Scan_numas, Scan_cpus 0], \<lparr>balance_irqs = [], registry = ()\<rparr>)"
    by (simp add: prepare_def f sample_startup_def world.defs startup.defs)
  have r: "reread_config sample_lib (sample_tick False None []) ?o = ([], ?o)"
    by (simp add: reread_config_def sample_tick_simps)
  have t: "tick sample_lib (sample_tick False None []) ?o \<lparr>balance_irqs = [], registry = ()\<rparr>
      = ([Reconfig_check, Scan_irqs, Link_irqs_to_cpus, Gather_statistics, Show_statistics,
          Choose_irqs_to_move, Sleep 0], ?o, \<lparr>balance_irqs = [], registry = ()\<rparr>)"
    by (simp add: tick_def r sample_tick_simps f)
  have 4: "main sample_lib ?S [sample_tick False None []] zero_heap [''birq'', ''-d'']
       = ([Openlog, Syslog ''Start daemon.'', Srand, Scan_numas, Scan_cpus 0,
           Reconfig_check, Scan_irqs, Link_irqs_to_cpus, Gather_statistics, Show_statistics,
           Choose_irqs_to_move, Sleep 0, Free_data, Syslog ''Stop daemon.''], 0)"
    by (simp add: main_def 1 2 d p t emit_def main_err_def)
  from 1 2 3 4 show ?thesis by blast
qed

subsection \<open>main from start to exit\<close>

lemma opts_parse_rc: "opts_parse L argv opts = Returned (rc, opts') \<Longrightarrow> rc = 0"
  by (auto simp add: opts_parse_def split: proc.splits)

lemma startup_config_cli: "cli_part (snd (startup_config L S opts)) = cli_part opts"
  using parse_config_cli [of L S "cfgfile opts" opts]
  by (simp add: startup_config_def case_prod_unfold)

lemma fst_startup_config:
  "fst (startup_config L S opts) = 0 \<longleftrightarrow>
     (if access_R_OK S (cfgfile opts) then fst (parse_config L S (cfgfile opts) opts) = 0
      else cfgfile_userdefined opts = 0)"
  by (simp add: startup_config_def case_prod_unfold)

lemma daemonize_events:
  "filter is_pidfile_event (fst (daemonize S opts)) =
     (if debug opts \<noteq> 0 then []
      else if daemon_ret S < 0 then [Daemon]
      else if open_ret S (pidfile opts) < 0 then [Daemon, Open_pidfile (pidfile opts)]
      else [Daemon, Open_pidfile (pidfile opts), Write_pidfile, Close_pidfile])"
  by (simp add: daemonize_def Let_def)

lemma daemonize_failed: "fst (snd (daemonize S opts)) \<longleftrightarrow> debug opts = 0 \<and> daemon_ret S < 0"
  by (simp add: daemonize_def Let_def)

lemma daemonize_pidfd:
  "0 \<le> snd (snd (daemonize S opts)) \<longleftrightarrow>
     debug opts = 0 \<and> 0 \<le> daemon_ret S \<and> 0 \<le> open_ret S (pidfile opts)"
  by (auto simp add: daemonize_def Let_def)

lemma prepare_no_pidfile: "filter is_pidfile_event (fst (prepare S opts)) = []"
  by (cases "pxm opts") (simp_all add: prepare_def Let_def)

lemma reread_config_no_pidfile: "filter is_pidfile_event (fst (reread_config L T opts)) = []"
  by (simp add: reread_config_def case_prod_unfold)

lemma tick_no_pidfile: "filter is_pidfile_event (fst (tick L T opts eng)) = []"
  by (simp add: tick_def case_prod_unfold Let_def reread_config_no_pidfile)

lemma main_loop_no_pidfile: "filter is_pidfile_event (fst (main_loop L Ts opts eng)) = []"
  by (induction Ts arbitrary: opts eng) (simp_all add: case_prod_unfold tick_no_pidfile)

lemma main_loop_cli: "cli_part (fst (snd (main_loop L Ts opts eng))) = cli_part opts"
  by (induction Ts arbitrary: opts eng) (simp_all add: case_prod_unfold tick_opts reread_config_cli)

lemma emit_simps: "fst (emit evs r) = evs @ fst r" "snd (emit evs r) = snd r"
  by (simp_all add: emit_def)

lemma main_err_simps:
  "fst (main_err pidfd opts retval) = (if 0 \<le> pidfd then [Unlink_pidfile (pidfile opts)] else []) @ [Syslog ''Stop daemon.'']"
  "snd (main_err pidfd opts retval) = retval"
  by (simp_all add: main_err_def)

lemma main_Exited:
  "opts_parse L argv (opts_init L heap) = Exited st \<Longrightarrow> main L S Ts heap argv = ([], st)"
  by (simp add: main_def)

lemma main_status:
  assumes "opts_parse L argv (opts_init L heap) = Returned (rc, opts)"
  shows "snd (main L S Ts heap argv) =
           (if fst (startup_config L S opts) \<noteq> 0 then - 1
            else if debug opts = 0 \<and> daemon_ret S < 0 then - 1
            else 0)"
proof -
  have d: "debug (snd (startup_config L S opts)) = debug opts"
    using startup_config_cli [of L S opts] by (simp add: cli_part_def)
  show ?thesis
    using opts_parse_rc [OF assms]
    by (simp add: main_def assms case_prod_unfold emit_simps main_err_simps daemonize_failed d)
qed

lemma main_pidfile_events:
  assumes "opts_parse L argv (opts_init L heap) = Returned (rc, opts)"
  shows "filter is_pidfile_event (fst (main L S Ts heap argv)) =
           (if fst (startup_config L S opts) \<noteq> 0 \<or> debug opts \<noteq> 0 then []
            else if daemon_ret S < 0 then [Daemon]
            else if open_ret S (pidfile opts) < 0 then [Daemon, Open_pidfile (pidfile opts)]
            else [Daemon, Open_pidfile (pidfile opts), Write_pidfile, Close_pidfile,
                  Unlink_pidfile (pidfile opts)])"
proof -
  let ?o1 = "snd (startup_config L S opts)"
  have c: "debug ?o1 = debug opts" "pidfile ?o1 = pidfile opts"
    using startup_config_cli [of L S opts] by (simp_all add: cli_part_def)
  have p: "pidfile (fst (snd (main_loop L Ts ?o1 eng))) = pidfile opts" for eng
    using main_loop_cli [of L Ts ?o1 eng] c by (simp add: cli_part_def)
  show ?thesis
    using opts_parse_rc [OF assms]
    by (simp add: main_def assms case_prod_unfold emit_simps main_err_simps daemonize_failed
        daemonize_events daemonize_pidfd prepare_no_pidfile main_loop_no_pidfile c p)
qed

lemma sample_startup_simps:
  "access_R_OK (sample_startup f d r) p = (p = ''/etc/birq.conf'' \<and> f \<noteq> None)"
  "lub_ini_parse_file (sample_startup (Some x) d r) ''/etc/birq.conf'' = x"
  "daemon_ret (sample_startup f d r) = d"
  "open_ret (sample_startup f d r) p = r"
  "write_ret (sample_startup f d r) = 0"
  "registry_new (sample_startup f d r) = ()"
  "scan_numas (sample_startup f d r) e = e"
  "scan_cpus (sample_startup f d r) h e = e"
  "parse_pxm_config (sample_startup f d r) q e = e"
  by (simp_all add: sample_startup_def one_file_def world.defs startup.defs)

lemma opts_parse_no_args: "opts_parse L [argv0] opts = Returned (0, opts)"
  by (simp add: opts_parse_def)

lemma opts_parse_d: "opts_parse L [argv0, ''-d''] opts = Returned (0, opts\<lparr>debug := 1\<rparr>)"
  by (simp add: opts_parse_def shortopts_def)

lemma opts_init_sample:
  "cfgfile (opts_init sample_lib heap) = ''/etc/birq.conf''"
  "pidfile (opts_init sample_lib heap) = ''/var/run/birq.pid''"
  "cfgfile_userdefined (opts_init sample_lib heap) = 0"
  "debug (opts_init sample_lib heap) = 0"
  "verbose (opts_init sample_lib heap) = 0"
  "pxm (opts_init sample_lib heap) = None"
  by (simp_all add: opts_init_def sample_lib_def)

lemma parse_config_empty:
  "lub_ini_parse_file W fname = Some Map.empty \<Longrightarrow>
   parse_config L W fname opts = (0, (opts_default_config L opts)\<lparr>exclude_cpus := 0\<rparr>)"
  by (simp add: parse_config_def and_then_def cfg_strategy_def cfg_threshold_def
        cfg_load_limit_def cfg_short_interval_def cfg_long_interval_def cfg_exclude_cpus_def
        cfg_use_cpus_def cfg_ht_def cfg_non_local_cpus_def lub_ini_find_def
        cpus_or_def cpus_complement_def cpus_setall_def opts_default_config_def cpus_clear_def)

subsection \<open>Exit codes\<close>

text \<open>
  Claim C6, as stated, fails: a pidfile that cannot be opened is not a startup error.
  The daemon logs a warning, runs, and on the termination signal returns 0.
\<close>

theorem unwritable_pidfile_exits_zero:
  "main sample_lib (sample_startup (Some (Some Map.empty)) 0 (- 1)) [] zero_heap [''birq'']
     = ([Openlog, Syslog ''Start daemon.'', Daemon, Open_pidfile ''/var/run/birq.pid'',
         Syslog ''Can't open pidfile'', Srand, Scan_numas, Scan_cpus 1, Free_data,
         Syslog ''Stop daemon.''], 0)
   \<and> exit_status 0 = 0"
proof -
  let ?S = "sample_startup (Some (Some Map.empty)) 0 (- 1)"
  let ?o0 = "opts_init sample_lib zero_heap"
  let ?o1 = "(opts_default_config sample_lib ?o0)\<lparr>exclude_cpus := 0\<rparr>"
  have pc: "parse_config sample_lib ?S ''/etc/birq.conf'' ?o0 = (0, ?o1)"
    by (rule parse_config_empty) (simp add: sample_startup_simps)
  have sc: "startup_config sample_lib ?S ?o0 = (0, ?o1)"
    by (simp add: startup_config_def sample_startup_simps opts_init_sample pc)
  have f: "debug ?o1 = 0" "verbose ?o1 = 0" "ht ?o1 = 1" "pxm ?o1 = None"
    "pidfile ?o1 = ''/var/run/birq.pid''"
    by (simp_all add: opts_default_config_def opts_init_sample)
  have d: "daemonize ?S ?o1 = ([Daemon, Open_pidfile ''/var/run/birq.pid'', Syslog ''Can't open pidfile''], False, - 1)"
    by (simp add: daemonize_def sample_startup_simps f)
  have p: "prepare ?S ?o1 = ([Srand, Scan_numas, Scan_cpus 1], \<lparr>balance_irqs = [], registry = ()\<rparr>)"
    by (simp add: prepare_def f sample_startup_simps)
  have "main sample_lib ?S [] zero_heap [''birq'']
     = ([Openlog, Syslog ''Start daemon.'', Daemon, Open_pidfile ''/var/run/birq.pid'',
         Syslog ''Can't open pidfile'', Srand, Scan_numas, Scan_cpus 1, Free_data,
         Syslog ''Stop daemon.''], 0)"
    by (simp add: main_def opts_parse_no_args sc d p emit_def main_err_def)
  then show ?thesis
    by (simp add: exit_status_def)
qed

text \<open>
  Claim C6, amended. The process exits with code 0 on clean termination after a
  termination signal, whether or not the pidfile could be opened, and with a non-zero
  code on the startup errors of the code: an option that makes \<^verbatim>\<open>opts_parse\<close> exit
  with \<^verbatim>\<open>-1\<close>, a config file that fails to parse, a bad CPU mask in it, a config file
  named on the command line with \<^verbatim>\<open>-c\<close> that cannot be read, and a failure to
  daemonize.
\<close>

theorem exit_codes:
  "(opts_parse L argv (opts_init L heap) = Exited st \<longrightarrow> snd (main L S Ts heap argv) = st)
   \<and> (opts_parse L argv (opts_init L heap) = Returned (rc, opts) \<longrightarrow>
        (fst (startup_config L S opts) = 0 \<and> (debug opts \<noteq> 0 \<or> 0 \<le> daemon_ret S)
           \<longrightarrow> exit_status (snd (main L S Ts heap argv)) = 0)
      \<and> (access_R_OK S (cfgfile opts) \<and> fst (parse_config L S (cfgfile opts) opts) \<noteq> 0
           \<longrightarrow> exit_status (snd (main L S Ts heap argv)) \<noteq> 0)
      \<and> (access_R_OK S (cfgfile opts) \<and> lub_ini_parse_file S (cfgfile opts) = Some ini
           \<and> (lub_ini_find ini ''exclude-cpus'' = Some v \<or> lub_ini_find ini ''use-cpus'' = Some v)
           \<and> fst (cpumask_parse_user L v) \<noteq> 0
           \<longrightarrow> exit_status (snd (main L S Ts heap argv)) \<noteq> 0)
      \<and> (\<not> access_R_OK S (cfgfile opts) \<and> cfgfile_userdefined opts \<noteq> 0
           \<longrightarrow> exit_status (snd (main L S Ts heap argv)) \<noteq> 0)
      \<and> (fst (startup_config L S opts) = 0 \<and> debug opts = 0 \<and> daemon_ret S < 0
           \<longrightarrow> exit_status (snd (main L S Ts heap argv)) \<noteq> 0))
   \<and> (opts_parse L argv (opts_init L heap) = Returned (rc, opts) \<longrightarrow>
        cfgfile_userdefined opts = (if CHR ''c'' \<in> fst ` set (getopt_returns L argv) then 1 else 0)
        \<and> cfgfile opts =
            last (BIRQ_CFGFILE L # map snd (filter (\<lambda>r. fst r = CHR ''c'') (getopt_returns L argv))))
   \<and> (opts_parse L argv (opts_init L heap) = Returned (rc, opts)
        \<and> CHR ''c'' \<in> fst ` set (getopt_returns L argv) \<and> \<not> access_R_OK S (cfgfile opts)
        \<longrightarrow> exit_status (snd (main L S Ts heap argv)) \<noteq> 0)
   \<and> (list_all (self_contained (HAVE_GETOPT_H L)) pre
        \<longrightarrow> (CHR ''c'', f) \<in> set (getopt_returns L (argv0 # pre @ ''-c'' # f # rest)))"
proof (intro conjI impI)
  assume "opts_parse L argv (opts_init L heap) = Exited st"
  then show "snd (main L S Ts heap argv) = st"
    by (simp add: main_Exited)
next
  assume p: "opts_parse L argv (opts_init L heap) = Returned (rc, opts)"
    and "fst (startup_config L S opts) = 0 \<and> (debug opts \<noteq> 0 \<or> 0 \<le> daemon_ret S)"
  then show "exit_status (snd (main L S Ts heap argv)) = 0"
    by (auto simp add: main_status [OF p] exit_status_def)
next
  assume p: "opts_parse L argv (opts_init L heap) = Returned (rc, opts)"
    and "access_R_OK S (cfgfile opts) \<and> fst (parse_config L S (cfgfile opts) opts) \<noteq> 0"
  then have "fst (startup_config L S opts) \<noteq> 0"
    by (simp add: fst_startup_config)
  then show "exit_status (snd (main L S Ts heap argv)) \<noteq> 0"
    by (simp add: main_status [OF p] exit_status_def)
next
  assume p: "opts_parse L argv (opts_init L heap) = Returned (rc, opts)"
    and a: "access_R_OK S (cfgfile opts) \<and> lub_ini_parse_file S (cfgfile opts) = Some ini
           \<and> (lub_ini_find ini ''exclude-cpus'' = Some v \<or> lub_ini_find ini ''use-cpus'' = Some v)
           \<and> fst (cpumask_parse_user L v) \<noteq> 0"
  then have "\<not> ini_ok L ini"
    by (auto simp add: ini_ok_def key_ok_def mask_ok_def)
  with a have "fst (parse_config L S (cfgfile opts) opts) \<noteq> 0"
    by (simp add: parse_config_fails)
  with a have "fst (startup_config L S opts) \<noteq> 0"
    by (simp add: fst_startup_config)
  then show "exit_status (snd (main L S Ts heap argv)) \<noteq> 0"
    by (simp add: main_status [OF p] exit_status_def)
next
  assume p: "opts_parse L argv (opts_init L heap) = Returned (rc, opts)"
    and "\<not> access_R_OK S (cfgfile opts) \<and> cfgfile_userdefined opts \<noteq> 0"
  then have "fst (startup_config L S opts) \<noteq> 0"
    by (simp add: fst_startup_config)
  then show "exit_status (snd (main L S Ts heap argv)) \<noteq> 0"
    by (simp add: main_status [OF p] exit_status_def)
next
  assume p: "opts_parse L argv (opts_init L heap) = Returned (rc, opts)"
    and "fst (startup_config L S opts) = 0 \<and> debug opts = 0 \<and> daemon_ret S < 0"
  then show "exit_status (snd (main L S Ts heap argv)) \<noteq> 0"
    by (simp add: main_status [OF p] exit_status_def)
next
  assume p: "opts_parse L argv (opts_init L heap) = Returned (rc, opts)"
  from opts_parse_flags [OF p]
  show "cfgfile_userdefined opts = (if CHR ''c'' \<in> fst ` set (getopt_returns L argv) then 1 else 0)"
    and "cfgfile opts =
            last (BIRQ_CFGFILE L # map snd (filter (\<lambda>r. fst r = CHR ''c'') (getopt_returns L argv)))"
    by blast+
next
  assume a: "opts_parse L argv (opts_init L heap) = Returned (rc, opts)
        \<and> CHR ''c'' \<in> fst ` set (getopt_returns L argv) \<and> \<not> access_R_OK S (cfgfile opts)"
  then have p: "opts_parse L argv (opts_init L heap) = Returned (rc, opts)"
    by blast
  from a opts_parse_flags [OF p] have "cfgfile_userdefined opts = 1"
    by simp
  with a have "fst (startup_config L S opts) \<noteq> 0"
    by (simp add: fst_startup_config)
  then show "exit_status (snd (main L S Ts heap argv)) \<noteq> 0"
    by (simp add: main_status [OF p] exit_status_def)
next
  assume "list_all (self_contained (HAVE_GETOPT_H L)) pre"
  then show "(CHR ''c'', f) \<in> set (getopt_returns L (argv0 # pre @ ''-c'' # f # rest))"
    by (rule getopt_returns_c)
qed

lemma parse_kernel_hex_zz: "parse_kernel_hex ''zz'' = (- 22, 0)"
  by (simp add: parse_kernel_hex_def hex_digit_def)

lemma opts_parse_c:
  "opts_parse L [argv0, ''-c'', f] opts = Returned (0, opts\<lparr>cfgfile := f, cfgfile_userdefined := 1\<rparr>)"
  by (simp add: opts_parse_def shortopts_def)

theorem exit_codes_witness:
  "exit_status (snd (main sample_lib (sample_startup (Some (Some Map.empty)) 0 (- 1))
       [sample_tick False None [24], sample_tick False None []] zero_heap [''birq''])) = 0
   \<and> exit_status (snd (main sample_lib (sample_startup (Some (Some [''exclude-cpus'' \<mapsto> ''zz''])) 0 3)
       [] zero_heap [''birq''])) \<noteq> 0
   \<and> snd (main sample_lib (sample_startup None 0 3) [] zero_heap [''birq'', ''-r'']) = - 1
   \<and> exit_status (snd (main sample_lib (sample_startup (Some (Some Map.empty)) 0 3)
       [] zero_heap [''birq'', ''-c'', ''/nonexistent''])) \<noteq> 0"
proof -
  let ?S1 = "sample_startup (Some (Some Map.empty)) 0 (- 1)"
  let ?i = "[''exclude-cpus'' \<mapsto> ''zz'']"
  let ?S2 = "sample_startup (Some (Some ?i)) 0 3"
  let ?S4 = "sample_startup (Some (Some Map.empty)) 0 3"
  let ?o0 = "opts_init sample_lib zero_heap"
  let ?Ts = "[sample_tick False None [24], sample_tick False None []]"
  have pu: "cpumask_parse_user sample_lib = parse_kernel_hex"
    by (simp add: sample_lib_def)
  have op: "opts_parse sample_lib [''birq''] ?o0 = Returned (0, ?o0)"
    by (rule opts_parse_no_args)
  have "parse_config sample_lib ?S1 ''/etc/birq.conf'' ?o0
      = (0, (opts_default_config sample_lib ?o0)\<lparr>exclude_cpus := 0\<rparr>)"
    by (rule parse_config_empty) (simp add: sample_startup_simps)
  then have "fst (startup_config sample_lib ?S1 ?o0) = 0 \<and> (debug ?o0 \<noteq> 0 \<or> 0 \<le> daemon_ret ?S1)"
    by (simp add: fst_startup_config sample_startup_simps opts_init_sample)
  then have 1: "exit_status (snd (main sample_lib ?S1 ?Ts zero_heap [''birq''])) = 0"
    by (rule exit_codes [THEN conjunct2, THEN conjunct1, THEN mp, OF op, THEN conjunct1, THEN mp])
  have "access_R_OK ?S2 (cfgfile ?o0) \<and> lub_ini_parse_file ?S2 (cfgfile ?o0) = Some ?i
           \<and> (lub_ini_find ?i ''exclude-cpus'' = Some ''zz'' \<or> lub_ini_find ?i ''use-cpus'' = Some ''zz'')
           \<and> fst (cpumask_parse_user sample_lib ''zz'') \<noteq> 0"
    by (simp add: sample_startup_simps opts_init_sample lub_ini_find_def pu parse_kernel_hex_zz)
  then have 2: "exit_status (snd (main sample_lib ?S2 [] zero_heap [''birq''])) \<noteq> 0"
    by (rule exit_codes [THEN conjunct2, THEN conjunct1, THEN mp, OF op, THEN conjunct2,
          THEN conjunct2, THEN conjunct1, THEN mp])
  have "opts_parse sample_lib [''birq'', ''-r''] ?o0 = Exited (- 1)"
    by (rule opts_parse_r)
  then have 3: "snd (main sample_lib (sample_startup None 0 3) [] zero_heap [''birq'', ''-r'']) = - 1"
    by (rule exit_codes [THEN conjunct1, THEN mp])
  let ?oc = "?o0\<lparr>cfgfile := ''/nonexistent'', cfgfile_userdefined := 1\<rparr>"
  have oc: "opts_parse sample_lib [''birq'', ''-c'', ''/nonexistent''] ?o0 = Returned (0, ?oc)"
    by (rule opts_parse_c)
  have "list_all (self_contained (HAVE_GETOPT_H sample_lib)) []"
    by simp
  then have "(CHR ''c'', ''/nonexistent'') \<in> set (getopt_returns sample_lib
      (''birq'' # [] @ ''-c'' # ''/nonexistent'' # []))"
    by (rule exit_codes [THEN conjunct2, THEN conjunct2, THEN conjunct2, THEN conjunct2, THEN mp])
  then have "CHR ''c'' \<in> fst ` set (getopt_returns sample_lib [''birq'', ''-c'', ''/nonexistent''])"
    by force
  moreover have "\<not> access_R_OK ?S4 (cfgfile ?oc)"
    by (simp add: sample_startup_simps)
  ultimately have "opts_parse sample_lib [''birq'', ''-c'', ''/nonexistent''] ?o0 = Returned (0, ?oc)
        \<and> CHR ''c'' \<in> fst ` set (getopt_returns sample_lib [''birq'', ''-c'', ''/nonexistent''])
        \<and> \<not> access_R_OK ?S4 (cfgfile ?oc)"
    using oc by blast
  then have 4: "exit_status (snd (main sample_lib ?S4 [] zero_heap [''birq'', ''-c'', ''/nonexistent''])) \<noteq> 0"
    by (rule exit_codes [THEN conjunct2, THEN conjunct2, THEN conjunct2, THEN conjunct1, THEN mp])
  from 1 2 3 4 show ?thesis by blast
qed

subsection \<open>Debug mode and the pidfile\<close>

text \<open>
  Claim C10. Whenever getopt returns the option \<^verbatim>\<open>d\<close> for the command line, which
  it does for \<^verbatim>\<open>-d\<close> and with \<^verbatim>\<open>getopt_long\<close> for \<^verbatim>\<open>--debug\<close> after any
  arguments that are complete in themselves, the process does not daemonize and does
  not open, write, close or unlink a pidfile; without it \<^verbatim>\<open>debug\<close> stays 0. And
  whenever \<^verbatim>\<open>main\<close> unlinks the pidfile, it is not in debug mode and has opened that
  file successfully at startup.
\<close>

theorem debug_mode_no_pidfile:
  "(opts_parse L argv (opts_init L heap) = Exited st \<longrightarrow> fst (main L S Ts heap argv) = [])
   \<and> (opts_parse L argv (opts_init L heap) = Returned (rc, opts) \<and> debug opts \<noteq> 0
        \<longrightarrow> filter is_pidfile_event (fst (main L S Ts heap argv)) = [])
   \<and> (opts_parse L argv (opts_init L heap) = Returned (rc, opts)
        \<and> Unlink_pidfile p \<in> set (fst (main L S Ts heap argv))
        \<longrightarrow> debug opts = 0 \<and> p = pidfile opts \<and> 0 \<le> open_ret S (pidfile opts)
            \<and> Open_pidfile p \<in> set (fst (main L S Ts heap argv)))
   \<and> opts_parse L [argv0, ''-d''] (opts_init L heap) = Returned (0, (opts_init L heap)\<lparr>debug := 1\<rparr>)
   \<and> (opts_parse L argv (opts_init L heap) = Returned (rc, opts)
        \<longrightarrow> debug opts = (if CHR ''d'' \<in> fst ` set (getopt_returns L argv) then 1 else 0))
   \<and> (opts_parse L argv (opts_init L heap) = Returned (rc, opts)
        \<and> CHR ''d'' \<in> fst ` set (getopt_returns L argv)
        \<longrightarrow> filter is_pidfile_event (fst (main L S Ts heap argv)) = [])
   \<and> (list_all (self_contained (HAVE_GETOPT_H L)) pre
        \<and> (d = ''-d'' \<or> HAVE_GETOPT_H L \<and> d = ''--debug'')
        \<longrightarrow> CHR ''d'' \<in> fst ` set (getopt_returns L (argv0 # pre @ d # rest)))"
proof (intro conjI impI)
  assume "opts_parse L argv (opts_init L heap) = Exited st"
  then show "fst (main L S Ts heap argv) = []"
    by (simp add: main_Exited)
next
  assume "opts_parse L argv (opts_init L heap) = Returned (rc, opts) \<and> debug opts \<noteq> 0"
  then show "filter is_pidfile_event (fst (main L S Ts heap argv)) = []"
    by (simp add: main_pidfile_events)
next
  assume a: "opts_parse L argv (opts_init L heap) = Returned (rc, opts)
        \<and> Unlink_pidfile p \<in> set (fst (main L S Ts heap argv))"
  then have p: "opts_parse L argv (opts_init L heap) = Returned (rc, opts)"
    by blast
  from a have "Unlink_pidfile p \<in> set (filter is_pidfile_event (fst (main L S Ts heap argv)))"
    by simp
  then have u: "debug opts = 0 \<and> p = pidfile opts \<and> 0 \<le> open_ret S (pidfile opts)"
    unfolding main_pidfile_events [OF p] by (auto split: if_splits)
  from u show "debug opts = 0" "p = pidfile opts" "0 \<le> open_ret S (pidfile opts)"
    by blast+
  have "Unlink_pidfile p \<in> set (filter is_pidfile_event (fst (main L S Ts heap argv)))
      \<Longrightarrow> Open_pidfile p \<in> set (filter is_pidfile_event (fst (main L S Ts heap argv)))"
    unfolding main_pidfile_events [OF p] by (auto split: if_splits)
  with a show "Open_pidfile p \<in> set (fst (main L S Ts heap argv))"
    by simp
next
  show "opts_parse L [argv0, ''-d''] (opts_init L heap) = Returned (0, (opts_init L heap)\<lparr>debug := 1\<rparr>)"
    by (rule opts_parse_d)
next
  assume "opts_parse L argv (opts_init L heap) = Returned (rc, opts)"
  then show "debug opts = (if CHR ''d'' \<in> fst ` set (getopt_returns L argv) then 1 else 0)"
    by (rule opts_parse_flags [THEN conjunct1])
next
  assume a: "opts_parse L argv (opts_init L heap) = Returned (rc, opts)
        \<and> CHR ''d'' \<in> fst ` set (getopt_returns L argv)"
  then have p: "opts_parse L argv (opts_init L heap) = Returned (rc, opts)"
    by blast
  from a opts_parse_flags [OF p, THEN conjunct1] have "debug opts = 1"
    by simp
  then show "filter is_pidfile_event (fst (main L S Ts heap argv)) = []"
    by (simp add: main_pidfile_events [OF p])
next
  assume "list_all (self_contained (HAVE_GETOPT_H L)) pre
        \<and> (d = ''-d'' \<or> HAVE_GETOPT_H L \<and> d = ''--debug'')"
  then show "CHR ''d'' \<in> fst ` set (getopt_returns L (argv0 # pre @ d # rest))"
    using getopt_returns_d [of L pre d argv0 rest] by blast
qed

lemma opts_parse_mixed:
  "opts_parse sample_lib [''birq'', ''-v'', ''--pid=/tmp/p'', ''--debug'', ''-p'', ''x''] opts =
     Returned (0, opts\<lparr>verbose := 1, debug := 1, pidfile := ''x''\<rparr>)"
  by (simp add: opts_parse_def shortopts_def longopts_def getopt_longarg_def find_longopt_def
      sample_lib_def)

lemma self_contained_samples:
  "self_contained True ''-v''" "self_contained True ''--pid=/tmp/p''"
  by (simp_all add: self_contained_def leaves_waiting_def shortopts_def longopts_def
      getopt_longarg_def find_longopt_def)

theorem debug_mode_no_pidfile_witness:
  "filter is_pidfile_event (fst (main sample_lib (sample_startup (Some (Some Map.empty)) 0 3)
       [sample_tick False None [24]] zero_heap [''birq'', ''-d''])) = []
   \<and> Unlink_pidfile ''/var/run/birq.pid'' \<in> set (fst (main sample_lib (sample_startup (Some (Some Map.empty)) 0 3)
       [sample_tick False None [24]] zero_heap [''birq'']))
   \<and> Open_pidfile ''/var/run/birq.pid'' \<in> set (fst (main sample_lib (sample_startup (Some (Some Map.empty)) 0 3)
       [sample_tick False None [24]] zero_heap [''birq'']))
   \<and> (0 :: int) \<le> open_ret (sample_startup (Some (Some Map.empty)) 0 3) ''/var/run/birq.pid''
   \<and> CHR ''d'' \<in> fst ` set (getopt_returns sample_lib
         [''birq'', ''-v'', ''--pid=/tmp/p'', ''--debug'', ''-p'', ''x''])
   \<and> filter is_pidfile_event (fst (main sample_lib (sample_startup (Some (Some Map.empty)) 0 3)
       [sample_tick False None [24]] zero_heap
       [''birq'', ''-v'', ''--pid=/tmp/p'', ''--debug'', ''-p'', ''x''])) = []"
proof -
  let ?S = "sample_startup (Some (Some Map.empty)) 0 3"
  let ?Ts = "[sample_tick False None [24]]"
  let ?o0 = "opts_init sample_lib zero_heap"
  let ?argv = "[''birq'', ''-v'', ''--pid=/tmp/p'', ''--debug'', ''-p'', ''x'']"
  have d: "opts_parse sample_lib [''birq'', ''-d''] ?o0 = Returned (0, ?o0\<lparr>debug := 1\<rparr>)"
    by (rule debug_mode_no_pidfile [THEN conjunct2, THEN conjunct2, THEN conjunct2, THEN conjunct1])
  then have "opts_parse sample_lib [''birq'', ''-d''] ?o0 = Returned (0, ?o0\<lparr>debug := 1\<rparr>)
      \<and> debug (?o0\<lparr>debug := 1\<rparr>) \<noteq> 0"
    by simp
  then have 1: "filter is_pidfile_event (fst (main sample_lib ?S ?Ts zero_heap [''birq'', ''-d''])) = []"
    by (rule debug_mode_no_pidfile [THEN conjunct2, THEN conjunct1, THEN mp])
  have op: "opts_parse sample_lib [''birq''] ?o0 = Returned (0, ?o0)"
    by (rule opts_parse_no_args)
  have "parse_config sample_lib ?S ''/etc/birq.conf'' ?o0
      = (0, (opts_default_config sample_lib ?o0)\<lparr>exclude_cpus := 0\<rparr>)"
    by (rule parse_config_empty) (simp add: sample_startup_simps)
  then have sc: "fst (startup_config sample_lib ?S ?o0) = 0"
    by (simp add: fst_startup_config sample_startup_simps opts_init_sample)
  have "filter is_pidfile_event (fst (main sample_lib ?S ?Ts zero_heap [''birq''])) =
      [Daemon, Open_pidfile ''/var/run/birq.pid'', Write_pidfile, Close_pidfile,
       Unlink_pidfile ''/var/run/birq.pid'']"
    by (simp add: main_pidfile_events [OF op] sc sample_startup_simps opts_init_sample)
  then have "Unlink_pidfile ''/var/run/birq.pid'' \<in> set (filter is_pidfile_event (fst (main sample_lib ?S ?Ts zero_heap [''birq''])))"
    by simp
  then have 2: "Unlink_pidfile ''/var/run/birq.pid'' \<in> set (fst (main sample_lib ?S ?Ts zero_heap [''birq'']))"
    by simp
  with op have "opts_parse sample_lib [''birq''] ?o0 = Returned (0, ?o0)
        \<and> Unlink_pidfile ''/var/run/birq.pid'' \<in> set (fst (main sample_lib ?S ?Ts zero_heap [''birq'']))"
    by blast
  then have "debug ?o0 = 0 \<and> ''/var/run/birq.pid'' = pidfile ?o0 \<and> 0 \<le> open_ret ?S (pidfile ?o0)
            \<and> Open_pidfile ''/var/run/birq.pid'' \<in> set (fst (main sample_lib ?S ?Ts zero_heap [''birq'']))"
    by (rule debug_mode_no_pidfile [THEN conjunct2, THEN conjunct2, THEN conjunct1, THEN mp])
  then have 3: "Open_pidfile ''/var/run/birq.pid'' \<in> set (fst (main sample_lib ?S ?Ts zero_heap [''birq'']))"
    and 4: "0 \<le> open_ret ?S ''/var/run/birq.pid''"
    by (simp_all add: opts_init_sample)
  have h: "HAVE_GETOPT_H sample_lib"
    by (simp add: sample_lib_def)
  have "list_all (self_contained (HAVE_GETOPT_H sample_lib)) [''-v'', ''--pid=/tmp/p'']
        \<and> (''--debug'' = ''-d'' \<or> HAVE_GETOPT_H sample_lib \<and> ''--debug'' = ''--debug'')"
    by (simp add: h self_contained_samples)
  then have "CHR ''d'' \<in> fst ` set (getopt_returns sample_lib
      (''birq'' # [''-v'', ''--pid=/tmp/p''] @ ''--debug'' # [''-p'', ''x'']))"
    by (rule debug_mode_no_pidfile [THEN conjunct2, THEN conjunct2, THEN conjunct2, THEN conjunct2,
          THEN conjunct2, THEN conjunct2, THEN mp])
  then have 5: "CHR ''d'' \<in> fst ` set (getopt_returns sample_lib ?argv)"
    by simp
  have "opts_parse sample_lib ?argv ?o0 = Returned (0, ?o0\<lparr>verbose := 1, debug := 1, pidfile := ''x''\<rparr>)"
    by (rule opts_parse_mixed)
  with 5 have "opts_parse sample_lib ?argv ?o0 = Returned (0, ?o0\<lparr>verbose := 1, debug := 1, pidfile := ''x''\<rparr>)
      \<and> CHR ''d'' \<in> fst ` set (getopt_returns sample_lib ?argv)"
    by blast
  then have 6: "filter is_pidfile_event (fst (main sample_lib ?S ?Ts zero_heap ?argv)) = []"
    by (rule debug_mode_no_pidfile [THEN conjunct2, THEN conjunct2, THEN conjunct2, THEN conjunct2,
          THEN conjunct2, THEN conjunct1, THEN mp])
  from 1 2 3 4 5 6 show ?thesis by blast
qed

end
